theory Spec2Isabelle
  imports Main "HOL-Library.Word" "HOL-Library.Multiset" "HOL-Library.Sublist"
begin

unbundle bit_operations_syntax

section \<open>Initial-credential acquisition (lib/krb5/krb/get\_in\_tkt.c)\<close>

text \<open>
  A shallow embedding of the client side of the Kerberos AS exchange as implemented in
  \<^verbatim>\<open>get_in_tkt.c\<close>: the saturating addition, the ordering of pre-authentication data, the
  reply classifiers, the reply decryptor and verifier, the all-in-one negotiation loop
  \<^verbatim>\<open>krb5_get_in_tkt\<close> and the step interface \<^verbatim>\<open>krb5_init_creds_step\<close>.

  Conventions of the embedding.
  \<^item> \<^verbatim>\<open>krb5_int32\<close>, \<^verbatim>\<open>krb5_error_code\<close>, \<^verbatim>\<open>krb5_timestamp\<close>, \<^verbatim>\<open>krb5_flags\<close> are 32-bit words;
    signed comparisons read them with \<open>sint\<close>.
  \<^item> A pointer that may be \<^verbatim>\<open>NULL\<close> is an \<open>option\<close>; a \<^verbatim>\<open>NULL\<close>-terminated array of
    pointers is a list (the terminator is the end of the list); a \<^verbatim>\<open>krb5_data\<close> is the
    list of its bytes (its \<^verbatim>\<open>length\<close> is the length of the list).
  \<^item> Functions of other files (codecs, transport, pre-authentication plugins, FAST, the
    profile, the clock) are parameters, collected in records. Those with side effects
    take and return a world \<open>'w\<close>.
  \<^item> Heap allocation is taken to succeed: \<^verbatim>\<open>malloc\<close>, \<^verbatim>\<open>strdup\<close>, \<^verbatim>\<open>k5alloc\<close> and the
    copy functions built on them never report \<^verbatim>\<open>ENOMEM\<close>, and freeing is not modelled.
  \<^item> A function whose C code can dereference \<^verbatim>\<open>NULL\<close>, read past a buffer or fail an
    \<^verbatim>\<open>assert\<close> returns an \<open>option\<close>; \<open>None\<close> stands for that undefined behaviour.
\<close>

subsection \<open>Scalar types and constants\<close>

type_synonym krb5_int32 = "32 word"
type_synonym krb5_error_code = "32 word"
type_synonym krb5_timestamp = "32 word"
type_synonym krb5_flags = "32 word"
type_synonym octets = "8 word list"

definition KRB5_INT32_MAX :: krb5_int32 where
  "KRB5_INT32_MAX = 2147483647"

definition KRB5_INT32_MIN :: krb5_int32 where
  "KRB5_INT32_MIN = - KRB5_INT32_MAX - 1"

text \<open>
  Error codes. The protocol errors are the RFC 4120 numbers; the library codes are
  offsets in the error table \<^verbatim>\<open>krb5\<close>, whose base is \<open>ERROR_TABLE_BASE_krb5\<close>. The proofs
  use only that the codes are nonzero and distinct.
\<close>

definition ERROR_TABLE_BASE_krb5 :: krb5_error_code where
  "ERROR_TABLE_BASE_krb5 = - 1765328384"

definition KDC_ERR_PREAUTH_REQUIRED :: "32 word" where
  "KDC_ERR_PREAUTH_REQUIRED = 25"

definition KRB_ERR_RESPONSE_TOO_BIG :: "32 word" where
  "KRB_ERR_RESPONSE_TOO_BIG = 52"

definition KDC_ERR_WRONG_REALM :: "32 word" where
  "KDC_ERR_WRONG_REALM = 68"

definition KRB5KDC_ERR_C_PRINCIPAL_UNKNOWN :: krb5_error_code where
  "KRB5KDC_ERR_C_PRINCIPAL_UNKNOWN = ERROR_TABLE_BASE_krb5 + 6"

definition KRB5KRB_AP_ERR_MSG_TYPE :: krb5_error_code where
  "KRB5KRB_AP_ERR_MSG_TYPE = ERROR_TABLE_BASE_krb5 + 40"

definition KRB5KRB_ERR_RESPONSE_TOO_BIG :: krb5_error_code where
  "KRB5KRB_ERR_RESPONSE_TOO_BIG = ERROR_TABLE_BASE_krb5 + 52"

definition KRB5KRB_ERR_GENERIC :: krb5_error_code where
  "KRB5KRB_ERR_GENERIC = ERROR_TABLE_BASE_krb5 + 60"

definition KRB5KDC_ERR_WRONG_REALM :: krb5_error_code where
  "KRB5KDC_ERR_WRONG_REALM = ERROR_TABLE_BASE_krb5 + 68"

definition KRB5_KDCREP_MODIFIED :: krb5_error_code where
  "KRB5_KDCREP_MODIFIED = ERROR_TABLE_BASE_krb5 + 147"

definition KRB5_KDCREP_SKEW :: krb5_error_code where
  "KRB5_KDCREP_SKEW = ERROR_TABLE_BASE_krb5 + 148"

definition KRB5_IN_TKT_REALM_MISMATCH :: krb5_error_code where
  "KRB5_IN_TKT_REALM_MISMATCH = ERROR_TABLE_BASE_krb5 + 149"

definition KRB5KRB_AP_ERR_V4_REPLY :: krb5_error_code where
  "KRB5KRB_AP_ERR_V4_REPLY = ERROR_TABLE_BASE_krb5 + 219"

definition KRB5_GET_IN_TKT_LOOP :: krb5_error_code where
  "KRB5_GET_IN_TKT_LOOP = ERROR_TABLE_BASE_krb5 + 223"

definition KV5M_CONTEXT :: krb5_error_code where
  "KV5M_CONTEXT = - 1760647388"

definition EINVAL :: krb5_error_code where
  "EINVAL = 22"

definition ENOENT :: krb5_error_code where
  "ENOENT = 2"

definition KDC_OPT_POSTDATED :: krb5_flags where
  "KDC_OPT_POSTDATED = 0x02000000"

definition KDC_OPT_RENEWABLE :: krb5_flags where
  "KDC_OPT_RENEWABLE = 0x00800000"

definition KDC_OPT_CANONICALIZE :: krb5_flags where
  "KDC_OPT_CANONICALIZE = 0x00010000"

definition KDC_OPT_RENEWABLE_OK :: krb5_flags where
  "KDC_OPT_RENEWABLE_OK = 0x00000010"

definition KRB5_NT_UNKNOWN :: krb5_int32 where
  "KRB5_NT_UNKNOWN = 0"

definition KRB5_NT_ENTERPRISE_PRINCIPAL :: krb5_int32 where
  "KRB5_NT_ENTERPRISE_PRINCIPAL = 10"

definition KRB5_LIBOPT_SYNC_KDCTIME :: krb5_flags where
  "KRB5_LIBOPT_SYNC_KDCTIME = 0x0001"

definition KRB5_AS_REP :: "32 word" where
  "KRB5_AS_REP = 11"

definition KRB5_INIT_CREDS_STEP_FLAG_COMPLETE :: "32 word" where
  "KRB5_INIT_CREDS_STEP_FLAG_COMPLETE = 0x1"

definition KRB5_TGS_NAME :: string where
  "KRB5_TGS_NAME = ''krbtgt''"

definition KRB5_CONF_LIBDEFAULTS :: string where
  "KRB5_CONF_LIBDEFAULTS = ''libdefaults''"

definition KRB5_CONF_PREFERRED_PREAUTH_TYPES :: string where
  "KRB5_CONF_PREFERRED_PREAUTH_TYPES = ''preferred_preauth_types''"

definition MAX_IN_TKT_LOOPS :: int where
  "MAX_IN_TKT_LOOPS = 16"

text \<open>
  Modelled from the spec: the bound on realm referrals, \<^verbatim>\<open>KRB5_REFERRAL_MAXHOPS\<close>, is a
  macro of a header outside the file; the spec gives the default 5.
\<close>

definition KRB5_REFERRAL_MAXHOPS :: int where
  "KRB5_REFERRAL_MAXHOPS = 5"

subsection \<open>Saturating 32-bit addition\<close>

text \<open>
  \<^verbatim>\<open>krb5int_addint32\<close>. The subtractions are evaluated only behind the sign tests, as
  the short-circuit \<^verbatim>\<open>&&\<close> does, where they cannot overflow.
\<close>

definition krb5int_addint32 :: "krb5_int32 \<Rightarrow> krb5_int32 \<Rightarrow> krb5_int32" where
  "krb5int_addint32 x y =
     (if 0 <s x \<and> (KRB5_INT32_MAX - x) <s y then KRB5_INT32_MAX
      else if x <s 0 \<and> y <s (KRB5_INT32_MIN - x) then KRB5_INT32_MIN
      else x + y)"

subsection \<open>Protocol data\<close>

record krb5_principal_data =
  princ_realm :: string
  princ_data :: "string list"
  princ_type :: krb5_int32

record krb5_keyblock =
  kb_enctype :: krb5_int32
  kb_contents :: octets

record krb5_pa_data =
  pa_type :: krb5_int32
  pa_contents :: octets

record krb5_ticket_times =
  authtime :: krb5_timestamp
  starttime :: krb5_timestamp
  endtime :: krb5_timestamp
  renew_till :: krb5_timestamp

record krb5_enc_kdc_rep_part =
  enc2_session :: krb5_keyblock
  enc2_nonce :: krb5_int32
  enc2_flags :: krb5_flags
  enc2_times :: krb5_ticket_times
  enc2_server :: krb5_principal_data
  enc2_caddrs :: "octets list"

record krb5_ticket =
  tkt_server :: krb5_principal_data
  tkt_enc_part :: octets

record krb5_kdc_rep =
  rep_msg_type :: "32 word"
  rep_padata :: "krb5_pa_data list option"
  rep_client :: krb5_principal_data
  rep_ticket :: krb5_ticket
  rep_enctype :: krb5_int32
  rep_ciphertext :: octets
  rep_enc_part2 :: "krb5_enc_kdc_rep_part option"

record krb5_kdc_req =
  req_kdc_options :: krb5_flags
  req_client :: krb5_principal_data
  req_server :: "krb5_principal_data option"
  req_from :: krb5_timestamp
  req_till :: krb5_timestamp
  req_rtime :: krb5_timestamp
  req_nonce :: krb5_int32
  req_ktype :: "krb5_int32 list"
  req_addresses :: "octets list option"
  req_padata :: "krb5_pa_data list option"

record krb5_error =
  err_ctime :: krb5_timestamp
  err_cusec :: krb5_int32
  err_susec :: krb5_int32
  err_stime :: krb5_timestamp
  err_error :: "32 word"
  err_client :: "krb5_principal_data option"
  err_server :: krb5_principal_data
  err_text :: string
  err_e_data :: octets

record krb5_creds =
  cred_client :: "krb5_principal_data option"
  cred_server :: "krb5_principal_data option"
  cred_keyblock :: krb5_keyblock
  cred_times :: krb5_ticket_times
  cred_is_skey :: bool
  cred_ticket_flags :: krb5_flags
  cred_addresses :: "octets list"
  cred_second_ticket :: octets
  cred_ticket :: octets

text \<open>
  The library context. \<open>ctx_profile\<close> is \<^verbatim>\<open>profile_get_values\<close> on the context's
  profile: given the names and the value of the output pointer before the call, it
  returns its error code and the value of the output pointer after the call (\<open>None\<close>
  for \<^verbatim>\<open>NULL\<close>, a list for a \<^verbatim>\<open>NULL\<close>-terminated array of strings).
\<close>

record krb5_context_data =
  ctx_magic :: krb5_error_code
  ctx_profile :: "string list \<Rightarrow> string list option \<Rightarrow> krb5_error_code \<times> string list option"
  ctx_library_options :: krb5_flags
  ctx_clockskew :: krb5_int32

subsection \<open>Reading the configuration\<close>

definition krb5_libdefault_string ::
  "krb5_context_data \<Rightarrow> string \<Rightarrow> string \<Rightarrow> krb5_error_code \<times> string option" where
  "krb5_libdefault_string context realm option =
     (if length realm > 1023 then (EINVAL, None)
      else if ctx_magic context \<noteq> KV5M_CONTEXT then (KV5M_CONTEXT, None)
      else
        let (retval1, nameval1) =
              ctx_profile context [KRB5_CONF_LIBDEFAULTS, realm, option] None;
            (retval, nameval) =
              (if retval1 = 0 \<and> nameval1 \<noteq> None \<and> nameval1 \<noteq> Some []
               then (retval1, nameval1)
               else ctx_profile context [KRB5_CONF_LIBDEFAULTS, option] nameval1)
        in (case nameval of
              None \<Rightarrow> (ENOENT, None)
            | Some [] \<Rightarrow> (ENOENT, None)
            | Some (v # vs) \<Rightarrow> (retval, Some v)))"

subsection \<open>Ordering pre-authentication data\<close>

text \<open>
  The C library's \<^verbatim>\<open>strtol\<close> with base 10 in the C locale, for a 64-bit \<^verbatim>\<open>long\<close>: white
  space, an optional sign, digits; the value is clamped to the range of \<^verbatim>\<open>long\<close>. It
  returns the value and the rest of the string (\<^verbatim>\<open>endptr\<close>); without a digit the rest is
  the whole string.
\<close>

definition isspace_c :: "char \<Rightarrow> bool" where
  "isspace_c c = (c = CHR '' '' \<or> c = CHR 0x09 \<or> c = CHR 0x0A \<or> c = CHR 0x0B
                  \<or> c = CHR 0x0C \<or> c = CHR 0x0D)"

definition isdigit_c :: "char \<Rightarrow> bool" where
  "isdigit_c c = (48 \<le> (of_char c :: nat) \<and> (of_char c :: nat) \<le> 57)"

definition digits_value :: "string \<Rightarrow> int" where
  "digits_value ds = foldl (\<lambda>a c. 10 * a + (int (of_char c) - 48)) 0 ds"

definition LONG_MAX :: int where
  "LONG_MAX = 9223372036854775807"

definition LONG_MIN :: int where
  "LONG_MIN = - LONG_MAX - 1"

definition strtol :: "string \<Rightarrow> int \<times> string" where
  "strtol nptr =
     (let s1 = dropWhile isspace_c nptr;
          neg = (s1 \<noteq> [] \<and> hd s1 = CHR ''-'');
          s2 = (if s1 \<noteq> [] \<and> (hd s1 = CHR ''-'' \<or> hd s1 = CHR ''+'') then tl s1 else s1);
          ds = takeWhile isdigit_c s2;
          v = (if neg then - digits_value ds else digits_value ds)
      in if ds = [] then (0, nptr)
         else (max LONG_MIN (min LONG_MAX v), dropWhile isdigit_c s2))"

text \<open>The inner loop \<^verbatim>\<open>for (j = i; j > base; j--) padata[j] = padata[j - 1];\<close>\<close>

fun pa_shift :: "'a list \<Rightarrow> nat \<Rightarrow> nat \<Rightarrow> 'a list" where
  "pa_shift padata j base =
     (if j > base then pa_shift (padata[j := padata ! (j - 1)]) (j - 1) base else padata)"

text \<open>
  The search loop \<^verbatim>\<open>for (i = base; padata[i] != NULL; i++)\<close>: the first entry of type
  \<open>l\<close> from \<open>i\<close> on is moved to position \<open>base\<close>, the entries between move up by one,
  and \<open>base\<close> advances. It returns the array and the new \<open>base\<close>.
\<close>

function pa_search ::
  "krb5_pa_data list \<Rightarrow> nat \<Rightarrow> nat \<Rightarrow> int \<Rightarrow> krb5_pa_data list \<times> nat" where
  "pa_search padata i base l =
     (if i < length padata then
        (if sint (pa_type (padata ! i)) = l then
           (let tmp = padata ! i;
                padata' = pa_shift padata i base
            in (padata'[base := tmp], base + 1))
         else pa_search padata (i + 1) base l)
      else (padata, base))"
  by pat_completeness auto
termination
  by (relation "measure (\<lambda>(padata, i, base, l). length padata - i)") auto

declare pa_shift.simps [simp del] pa_search.simps [simp del]

text \<open>
  The outer loop over the preference string \<open>p\<close>; \<^verbatim>\<open>strspn(p, ", ")\<close> skips commas and
  blanks, \<^verbatim>\<open>q > p\<close> says that \<^verbatim>\<open>strtol\<close> consumed something.
\<close>

function sort_loop :: "string \<Rightarrow> krb5_pa_data list \<Rightarrow> nat \<Rightarrow> krb5_pa_data list" where
  "sort_loop p padata base =
     (if p = [] then padata
      else
        let p1 = dropWhile (\<lambda>c. c = CHR '','' \<or> c = CHR '' '') p in
        if p1 \<noteq> [] then
          (case strtol p1 of (l, q) \<Rightarrow>
             if length q < length p1 then
               (case pa_search padata base base l of (padata', base') \<Rightarrow>
                  sort_loop q padata' base')
             else padata)
        else sort_loop p1 padata base)"
  by pat_completeness auto
termination
  apply (relation "measure (\<lambda>(p, padata, base). length p)")
    apply simp
   apply (simp only: in_measure prod.case case_prod_beta fst_conv)
   apply (erule less_le_trans)
   apply (rule length_dropWhile_le)
  apply (simp del: dropWhile_eq_Nil_conv)
  done

declare sort_loop.simps [simp del]

definition default_preauth_types :: string where
  "default_preauth_types = ''17, 16, 15, 14''"

definition sort_krb5_padata_sequence ::
  "krb5_context_data \<Rightarrow> string \<Rightarrow> krb5_pa_data list option
   \<Rightarrow> krb5_error_code \<times> krb5_pa_data list option" where
  "sort_krb5_padata_sequence context realm padata =
     (case padata of
        None \<Rightarrow> (0, None)
      | Some [] \<Rightarrow> (0, Some [])
      | Some (e # es) \<Rightarrow>
          (let (ret, preauth_types) =
                 krb5_libdefault_string context realm KRB5_CONF_PREFERRED_PREAUTH_TYPES;
               types = (case preauth_types of
                          None \<Rightarrow> default_preauth_types
                        | Some s \<Rightarrow> if ret \<noteq> 0 then default_preauth_types else s)
           in (0, Some (sort_loop types (e # es) 0))))"

text \<open>
  The types the preference string names before parsing stops: the values the outer loop
  obtains from \<^verbatim>\<open>strtol\<close>, in order.
\<close>

function pref_types :: "string \<Rightarrow> int list" where
  "pref_types p =
     (if p = [] then []
      else
        let p1 = dropWhile (\<lambda>c. c = CHR '','' \<or> c = CHR '' '') p in
        if p1 \<noteq> [] then
          (case strtol p1 of (l, q) \<Rightarrow>
             if length q < length p1 then l # pref_types q else [])
        else pref_types p1)"
  by pat_completeness auto
termination
  apply (relation "measure length")
    apply simp
   apply (simp only: in_measure)
   apply (erule less_le_trans)
   apply (rule length_dropWhile_le)
  apply (simp del: dropWhile_eq_Nil_conv)
  done

declare pref_types.simps [simp del]

subsection \<open>Collaborators\<close>

text \<open>
  Pure functions and macros of the library that the file calls, and the signedness of
  the platform's \<^verbatim>\<open>char\<close>. A decoder returns its error code and the pointer it stores
  (\<open>None\<close> for \<^verbatim>\<open>NULL\<close>).
\<close>

record klib =
  char_signed :: bool
  krb5_is_krb_error :: "octets \<Rightarrow> bool"
  krb5_is_as_rep :: "octets \<Rightarrow> bool"
  decode_krb5_error :: "octets \<Rightarrow> krb5_error_code \<times> krb5_error option"
  decode_krb5_as_rep :: "octets \<Rightarrow> krb5_error_code \<times> krb5_kdc_rep option"
  decode_krb5_padata_sequence :: "octets \<Rightarrow> krb5_error_code \<times> krb5_pa_data list option"
  encode_krb5_as_req :: "krb5_kdc_req \<Rightarrow> krb5_error_code \<times> octets"
  encode_krb5_ticket :: "krb5_ticket \<Rightarrow> krb5_error_code \<times> octets"
  krb5_principal2salt :: "krb5_principal_data \<Rightarrow> krb5_error_code \<times> octets"
  krb5_principal_compare :: "krb5_principal_data \<Rightarrow> krb5_principal_data \<Rightarrow> bool"
  krb5_realm_compare :: "krb5_principal_data \<Rightarrow> krb5_principal_data \<Rightarrow> bool"
  krb5_parse_name :: "string \<Rightarrow> krb5_error_code \<times> krb5_principal_data option"
  krb5_unparse_name :: "krb5_principal_data \<Rightarrow> krb5_error_code \<times> string"

text \<open>
  Collaborators with side effects, on a world \<open>'w\<close>: the clock, the transport
  (\<^verbatim>\<open>krb5_sendto_kdc\<close> takes the request, the realm, \<^verbatim>\<open>*use_master\<close> and \<^verbatim>\<open>tcp_only\<close>, and
  returns its code, the reply and the new \<^verbatim>\<open>*use_master\<close>), the credential cache, the
  local addresses and the context's error message.
\<close>

record 'w ksys =
  krb5_timeofday :: "'w \<Rightarrow> (krb5_error_code \<times> krb5_timestamp) \<times> 'w"
  krb5_sendto_kdc ::
    "octets \<Rightarrow> string \<Rightarrow> bool \<Rightarrow> bool \<Rightarrow> 'w \<Rightarrow> (krb5_error_code \<times> octets \<times> bool) \<times> 'w"
  krb5_set_real_time :: "krb5_timestamp \<Rightarrow> 'w \<Rightarrow> krb5_error_code \<times> 'w"
  krb5_cc_store_cred :: "krb5_creds \<Rightarrow> 'w \<Rightarrow> krb5_error_code \<times> 'w"
  krb5_os_localaddr :: "'w \<Rightarrow> (krb5_error_code \<times> octets list option) \<times> 'w"
  krb5_set_error_message :: "krb5_error_code \<Rightarrow> string \<Rightarrow> 'w \<Rightarrow> 'w"

text \<open>
  Modelled from the spec: \<^verbatim>\<open>IS_TGS_PRINC\<close> is a macro of a header outside the file; the
  spec says that a TGS principal has exactly two name components, the first of which is
  the literal \<^verbatim>\<open>krbtgt\<close> (the test \<^verbatim>\<open>tgt_is_local_realm\<close> of the file starts the same way).
\<close>

definition IS_TGS_PRINC :: "krb5_principal_data \<Rightarrow> bool" where
  "IS_TGS_PRINC p = (length (princ_data p) = 2 \<and> princ_data p ! 0 = KRB5_TGS_NAME)"

subsection \<open>Decrypting, verifying and stashing an AS-REP\<close>

text \<open>
  \<^verbatim>\<open>decrypt_as_reply\<close>. \<open>key_proc\<close> and \<open>decrypt_proc\<close> are the caller's callbacks (the
  step interface passes \<^verbatim>\<open>NULL\<close> for \<open>key_proc\<close>); \<open>key\<close> is the caller's key or \<^verbatim>\<open>NULL\<close>.
  The result is the code, the reply as the callback left it and the world.
\<close>

definition decrypt_as_reply ::
  "klib
   \<Rightarrow> (krb5_int32 \<Rightarrow> octets \<Rightarrow> 'w \<Rightarrow> (krb5_error_code \<times> krb5_keyblock option) \<times> 'w) option
   \<Rightarrow> (krb5_keyblock option \<Rightarrow> krb5_kdc_rep \<Rightarrow> 'w \<Rightarrow> (krb5_error_code \<times> krb5_kdc_rep) \<times> 'w)
   \<Rightarrow> krb5_kdc_rep \<Rightarrow> krb5_keyblock option \<Rightarrow> 'w
   \<Rightarrow> (krb5_error_code \<times> krb5_kdc_rep \<times> 'w) option" where
  "decrypt_as_reply lib key_proc decrypt_proc as_reply key w =
     (if rep_enc_part2 as_reply \<noteq> None then Some (0, as_reply, w)
      else
        (case key of
           Some k \<Rightarrow>
             (case decrypt_proc (Some k) as_reply w of
                ((retval, as_reply'), w') \<Rightarrow> Some (retval, as_reply', w'))
         | None \<Rightarrow>
             (case krb5_principal2salt lib (rep_client as_reply) of
                (retval, salt) \<Rightarrow>
                  if retval \<noteq> 0 then Some (retval, as_reply, w)
                  else
                    (case key_proc of
                       None \<Rightarrow> None
                     | Some kp \<Rightarrow>
                         (case kp (rep_enctype as_reply) salt w of
                            ((retval, decrypt_key), w') \<Rightarrow>
                              if retval \<noteq> 0 then Some (retval, as_reply, w')
                              else
                                (case decrypt_proc decrypt_key as_reply w' of
                                   ((retval, as_reply'), w'') \<Rightarrow>
                                     Some (retval, as_reply', w'')))))))"

text \<open>
  \<^verbatim>\<open>verify_as_reply\<close>. The two \<open>case\<close>s on \<open>req_server\<close> follow the short-circuit
  evaluation: \<^verbatim>\<open>request->server\<close> is dereferenced for \<open>canon_ok\<close> when canonicalization
  was requested, and for the comparison of the servers when \<open>canon_ok\<close> is false and the
  clients are equal. The difference of the two timestamps wraps at 32 bits.
\<close>

definition verify_as_reply ::
  "klib \<Rightarrow> 'w ksys \<Rightarrow> krb5_context_data \<Rightarrow> krb5_timestamp \<Rightarrow> krb5_kdc_req \<Rightarrow> krb5_kdc_rep
   \<Rightarrow> 'w \<Rightarrow> (krb5_error_code \<times> krb5_kdc_rep \<times> 'w) option" where
  "verify_as_reply lib sys context time_now request as_reply w =
     (case rep_enc_part2 as_reply of
        None \<Rightarrow> None
      | Some e0 \<Rightarrow>
          let e = (if starttime (enc2_times e0) = 0
                   then e0\<lparr>enc2_times := (enc2_times e0)\<lparr>starttime := authtime (enc2_times e0)\<rparr>\<rparr>
                   else e0);
              as_reply' = as_reply\<lparr>rep_enc_part2 := Some e\<rparr>;
              canon_req = (req_kdc_options request AND KDC_OPT_CANONICALIZE \<noteq> 0
                           \<or> princ_type (req_client request) = KRB5_NT_ENTERPRISE_PRINCIPAL)
          in
          (case (if canon_req
                 then map_option (\<lambda>s. IS_TGS_PRINC s \<and> IS_TGS_PRINC (enc2_server e))
                        (req_server request)
                 else Some False) of
             None \<Rightarrow> None
           | Some canon_ok \<Rightarrow>
               (case (if canon_ok then Some False
                      else if \<not> krb5_principal_compare lib (rep_client as_reply)
                                  (req_client request)
                      then Some True
                      else map_option (\<lambda>s. \<not> krb5_principal_compare lib (enc2_server e) s)
                             (req_server request)) of
                  None \<Rightarrow> None
                | Some principals_changed \<Rightarrow>
                    if principals_changed
                       \<or> \<not> krb5_principal_compare lib (enc2_server e)
                              (tkt_server (rep_ticket as_reply))
                       \<or> req_nonce request \<noteq> enc2_nonce e
                       \<or> (req_kdc_options request AND KDC_OPT_POSTDATED \<noteq> 0
                           \<and> req_from request \<noteq> 0
                           \<and> req_from request \<noteq> starttime (enc2_times e))
                       \<or> (req_till request \<noteq> 0
                           \<and> req_till request <s endtime (enc2_times e))
                       \<or> (req_kdc_options request AND KDC_OPT_RENEWABLE \<noteq> 0
                           \<and> req_rtime request \<noteq> 0
                           \<and> req_rtime request <s renew_till (enc2_times e))
                       \<or> (req_kdc_options request AND KDC_OPT_RENEWABLE_OK \<noteq> 0
                           \<and> req_kdc_options request AND KDC_OPT_RENEWABLE = 0
                           \<and> enc2_flags e AND KDC_OPT_RENEWABLE \<noteq> 0
                           \<and> req_till request \<noteq> 0
                           \<and> req_till request <s renew_till (enc2_times e))
                    then Some (KRB5_KDCREP_MODIFIED, as_reply', w)
                    else if ctx_library_options context AND KRB5_LIBOPT_SYNC_KDCTIME \<noteq> 0
                    then
                      (case krb5_set_real_time sys (authtime (enc2_times e)) w of
                         (retval, w') \<Rightarrow> Some (retval, as_reply', w'))
                    else if req_from request = 0
                            \<and> sint (ctx_clockskew context)
                                < \<bar>sint (starttime (enc2_times e) - time_now)\<bar>
                    then Some (KRB5_KDCREP_SKEW, as_reply', w)
                    else Some (0, as_reply', w))))"

text \<open>
  \<^verbatim>\<open>stash_as_reply\<close>; \<open>ccache\<close> says whether a credential cache was passed. On failure the
  key, the ticket and the addresses copied so far are released.
\<close>

definition stash_as_reply ::
  "klib \<Rightarrow> 'w ksys \<Rightarrow> krb5_kdc_rep \<Rightarrow> krb5_creds \<Rightarrow> bool \<Rightarrow> 'w
   \<Rightarrow> (krb5_error_code \<times> krb5_creds \<times> 'w) option" where
  "stash_as_reply lib sys as_reply creds ccache w =
     (case rep_enc_part2 as_reply of
        None \<Rightarrow> None
      | Some e \<Rightarrow>
          let client = (if cred_client creds = None then Some (rep_client as_reply) else None);
              server = (if cred_server creds = None then Some (enc2_server e) else None);
              creds1 = creds\<lparr>cred_keyblock := enc2_session e,
                             cred_times := enc2_times e,
                             cred_is_skey := False,
                             cred_ticket_flags := enc2_flags e,
                             cred_addresses := enc2_caddrs e,
                             cred_second_ticket := []\<rparr>;
              released = (\<lambda>c. c\<lparr>cred_keyblock := (cred_keyblock c)\<lparr>kb_contents := []\<rparr>,
                                  cred_ticket := [], cred_addresses := []\<rparr>)
          in
          (case encode_krb5_ticket lib (rep_ticket as_reply) of
             (retval, packet) \<Rightarrow>
               if retval \<noteq> 0 then Some (retval, released creds1, w)
               else
                 let creds2 = creds1\<lparr>cred_ticket := packet\<rparr> in
                 (case (if ccache then krb5_cc_store_cred sys creds2 w else (0, w)) of
                    (retval, w') \<Rightarrow>
                      if retval \<noteq> 0 then Some (retval, released creds2, w')
                      else
                        Some (0,
                              creds2\<lparr>cred_client := (if cred_client creds2 = None then client
                                                      else cred_client creds2),
                                     cred_server := (if cred_server creds2 = None then server
                                                      else cred_server creds2)\<rparr>,
                              w'))))"

subsection \<open>The all-in-one driver\<close>

definition V4_KRB_PROT_VERSION :: "8 word" where
  "V4_KRB_PROT_VERSION = 4"

definition V4_AUTH_MSG_ERR_REPLY :: "32 word" where
  "V4_AUTH_MSG_ERR_REPLY = push_bit 1 5"

text \<open>The conversion of a \<^verbatim>\<open>char\<close> to \<^verbatim>\<open>unsigned int\<close> in \<^verbatim>\<open>t_switch = reply.data[1]\<close>.\<close>

definition char_to_uint :: "klib \<Rightarrow> 8 word \<Rightarrow> 32 word" where
  "char_to_uint lib c = (if char_signed lib then scast c else ucast c)"

text \<open>
  \<^verbatim>\<open>send_as_request\<close>, called with both output pointers set, as its one caller does. The
  argument \<open>tcp_only\<close> is the local variable of that name: the function is entered with
  \<open>False\<close> and \<^verbatim>\<open>goto send_again\<close> re-enters it with \<open>True\<close>. \<open>k4_version\<close> is the first
  byte of the request, read before the first transmission. The result is the code,
  \<^verbatim>\<open>*ret_err_reply\<close>, \<^verbatim>\<open>*ret_as_reply\<close>, \<^verbatim>\<open>*use_master\<close> and the world.
\<close>

function send_again ::
  "klib \<Rightarrow> 'w ksys \<Rightarrow> octets \<Rightarrow> string \<Rightarrow> 8 word \<Rightarrow> bool \<Rightarrow> bool \<Rightarrow> 'w
   \<Rightarrow> (krb5_error_code \<times> krb5_error option \<times> krb5_kdc_rep option \<times> bool \<times> 'w) option" where
  "send_again lib sys packet realm k4_version use_master tcp_only w =
     (case krb5_sendto_kdc sys packet realm use_master tcp_only w of
        ((retval, reply, use_master'), w') \<Rightarrow>
          if retval \<noteq> 0 then Some (retval, None, None, use_master', w')
          else if krb5_is_krb_error lib reply then
            (case decode_krb5_error lib reply of
               (retval, err_reply) \<Rightarrow>
                 if retval \<noteq> 0 then Some (retval, None, None, use_master', w')
                 else
                   (case err_reply of
                      None \<Rightarrow> None
                    | Some e \<Rightarrow>
                        if err_error e = KRB_ERR_RESPONSE_TOO_BIG \<and> \<not> tcp_only
                        then send_again lib sys packet realm k4_version use_master' True w'
                        else Some (retval, Some e, None, use_master', w')))
          else if \<not> krb5_is_as_rep lib reply then
            (if length reply < 2 then None
             else
               let t_switch = char_to_uint lib (reply ! 1) AND NOT 1 in
               if t_switch = V4_AUTH_MSG_ERR_REPLY
                  \<and> (reply ! 0 = V4_KRB_PROT_VERSION \<or> reply ! 0 = k4_version)
               then Some (KRB5KRB_AP_ERR_V4_REPLY, None, None, use_master', w')
               else Some (KRB5KRB_AP_ERR_MSG_TYPE, None, None, use_master', w'))
          else
            (case decode_krb5_as_rep lib reply of
               (retval, as_reply) \<Rightarrow>
                 if retval \<noteq> 0 then Some (retval, None, None, use_master', w')
                 else
                   (case as_reply of
                      None \<Rightarrow> None
                    | Some r \<Rightarrow>
                        if rep_msg_type r \<noteq> KRB5_AS_REP
                        then Some (KRB5KRB_AP_ERR_MSG_TYPE, None, None, use_master', w')
                        else Some (retval, None, Some r, use_master', w'))))"
  by pat_completeness auto
termination
  by (relation "measure (\<lambda>(lib, sys, packet, realm, k4_version, use_master, tcp_only, w).
        if tcp_only then 0 else 1)") auto

declare send_again.simps [simp del]

definition send_as_request ::
  "klib \<Rightarrow> 'w ksys \<Rightarrow> octets \<Rightarrow> string \<Rightarrow> bool \<Rightarrow> 'w
   \<Rightarrow> (krb5_error_code \<times> krb5_error option \<times> krb5_kdc_rep option \<times> bool \<times> 'w) option" where
  "send_as_request lib sys packet realm use_master w =
     (case packet of
        [] \<Rightarrow> None
      | k4_version # rest \<Rightarrow> send_again lib sys packet realm k4_version use_master False w)"

definition make_preauth_list :: "krb5_int32 list \<Rightarrow> krb5_pa_data list" where
  "make_preauth_list ptypes = map (\<lambda>t. \<lparr>pa_type = t, pa_contents = []\<rparr>) ptypes"

definition get_in_tkt_enctypes :: "krb5_int32 list" where
  "get_in_tkt_enctypes = [0x10, 0x17, 3, 2, 1]"

text \<open>
  The selection of the caller's enctypes in \<^verbatim>\<open>krb5_get_in_tkt\<close>: \<open>ktype_find\<close> is the
  loop over \<open>i\<close>, \<open>ktype_select\<close> the loop over the caller's list; the result is the
  array and \<open>next\<close>, where the array is cut.
\<close>

function ktype_find :: "krb5_int32 \<Rightarrow> krb5_int32 list \<Rightarrow> nat \<Rightarrow> nat \<Rightarrow> krb5_int32 list \<times> nat" where
  "ktype_find k ktype i nxt =
     (if i < length ktype then
        (if k = ktype ! i
         then ((ktype[nxt := ktype ! i])[i := ktype ! nxt], nxt + 1)
         else ktype_find k ktype (i + 1) nxt)
      else (ktype, nxt))"
  by pat_completeness auto
termination
  by (relation "measure (\<lambda>(k, ktype, i, nxt). length ktype - i)") auto

declare ktype_find.simps [simp del]

fun ktype_select :: "krb5_int32 list \<Rightarrow> krb5_int32 list \<Rightarrow> nat \<Rightarrow> krb5_int32 list \<times> nat" where
  "ktype_select [] ktype nxt = (ktype, nxt)"
| "ktype_select (k # ks) ktype nxt =
     (if nxt < length ktype \<and> k = ktype ! nxt then ktype_select ks ktype (nxt + 1)
      else (case ktype_find k ktype (nxt + 1) nxt of
              (ktype', nxt') \<Rightarrow> ktype_select ks ktype' nxt'))"

text \<open>
  The callbacks and plugin entry points of the all-in-one driver. \<^verbatim>\<open>krb5_obtain_padata\<close>
  may change the request and the credentials; \<^verbatim>\<open>krb5_process_padata\<close> may change the
  request, the reply, \<^verbatim>\<open>decrypt_key\<close> and the credentials, and returns \<^verbatim>\<open>do_more\<close>.
\<close>

record 'w git_ops =
  key_proc :: "krb5_int32 \<Rightarrow> octets \<Rightarrow> 'w \<Rightarrow> (krb5_error_code \<times> krb5_keyblock option) \<times> 'w"
  decrypt_proc ::
    "krb5_keyblock option \<Rightarrow> krb5_kdc_rep \<Rightarrow> 'w \<Rightarrow> (krb5_error_code \<times> krb5_kdc_rep) \<times> 'w"
  krb5_obtain_padata ::
    "krb5_pa_data list option \<Rightarrow> krb5_creds \<Rightarrow> krb5_kdc_req \<Rightarrow> 'w
     \<Rightarrow> (krb5_error_code \<times> krb5_kdc_req \<times> krb5_creds) \<times> 'w"
  krb5_process_padata ::
    "krb5_kdc_req \<Rightarrow> krb5_kdc_rep \<Rightarrow> krb5_keyblock option \<Rightarrow> krb5_creds \<Rightarrow> 'w
     \<Rightarrow> (krb5_error_code \<times> krb5_kdc_req \<times> krb5_kdc_rep \<times> krb5_keyblock option
         \<times> krb5_creds \<times> krb5_int32) \<times> 'w"

text \<open>The local variables of \<^verbatim>\<open>krb5_get_in_tkt\<close> that live across iterations.\<close>

record git_locals =
  gl_request :: krb5_kdc_req
  gl_creds :: krb5_creds
  gl_preauth_to_use :: "krb5_pa_data list option"
  gl_as_reply :: "krb5_kdc_rep option"
  gl_decrypt_key :: "krb5_keyblock option"
  gl_time_now :: krb5_timestamp
  gl_use_master :: bool
  gl_referral_count :: int
  gl_referred_server :: "krb5_principal_data option"

datatype 'a iteration = Continue 'a | Break 'a | Goto_cleanup krb5_error_code 'a

text \<open>
  \<^verbatim>\<open>rewrite_server_realm\<close>: the copy of the server with the new realm, and for a TGS
  request with the new realm as second component too.
\<close>

definition rewrite_server_realm ::
  "krb5_principal_data \<Rightarrow> string \<Rightarrow> bool \<Rightarrow> krb5_principal_data option" where
  "rewrite_server_realm old_server realm tgs =
     (let server = old_server\<lparr>princ_realm := realm\<rparr> in
      if tgs then
        (if length (princ_data server) < 2 then None
         else Some (server\<lparr>princ_data := (princ_data server)[1 := realm]\<rparr>))
      else Some server)"

definition tgt_is_local_realm :: "krb5_principal_data \<Rightarrow> krb5_principal_data \<Rightarrow> bool" where
  "tgt_is_local_realm client server =
     (length (princ_data server) = 2
      \<and> princ_data server ! 0 = KRB5_TGS_NAME
      \<and> princ_data server ! 1 = princ_realm client
      \<and> princ_realm server = princ_realm client)"

text \<open>
  One pass through the body of \<^verbatim>\<open>while (1)\<close> after the test of \<open>loopcount\<close>: it ends in
  \<^verbatim>\<open>continue\<close>, in \<^verbatim>\<open>break\<close> or in \<^verbatim>\<open>goto cleanup\<close> with a code. \<open>client\<close> and \<open>server\<close> are
  \<^verbatim>\<open>creds->client\<close> and \<^verbatim>\<open>creds->server\<close> as passed in.
\<close>

definition git_body ::
  "klib \<Rightarrow> 'w ksys \<Rightarrow> 'w git_ops \<Rightarrow> krb5_context_data \<Rightarrow> bool \<Rightarrow> bool
   \<Rightarrow> krb5_principal_data \<Rightarrow> krb5_principal_data \<Rightarrow> git_locals \<Rightarrow> 'w
   \<Rightarrow> ((git_locals \<times> 'w) iteration) option" where
  "git_body lib sys ops context canon_flag is_tgt_req client server l w =
     (case krb5_obtain_padata ops (gl_preauth_to_use l) (gl_creds l) (gl_request l) w of
        ((retval, request1, creds1), w1) \<Rightarrow>
          let l1 = l\<lparr>gl_request := request1, gl_creds := creds1\<rparr> in
          if retval \<noteq> 0 then Some (Goto_cleanup retval (l1, w1))
          else
            let l2 = l1\<lparr>gl_preauth_to_use := None, gl_as_reply := None\<rparr> in
            (case krb5_timeofday sys w1 of
               ((retval, now), w2) \<Rightarrow>
                 let l3 = l2\<lparr>gl_time_now := now\<rparr> in
                 if retval \<noteq> 0 then Some (Goto_cleanup retval (l3, w2))
                 else
                   let l4 = l3\<lparr>gl_request := (gl_request l3)\<lparr>req_nonce := now\<rparr>\<rparr> in
                   (case encode_krb5_as_req lib (gl_request l4) of
                      (retval, encoded_request) \<Rightarrow>
                        if retval \<noteq> 0 then Some (Goto_cleanup retval (l4, w2))
                        else
                          (case send_as_request lib sys encoded_request
                                  (princ_realm (req_client (gl_request l4)))
                                  (gl_use_master l4) w2 of
                             None \<Rightarrow> None
                           | Some (retval, err_reply, as_reply, use_master, w3) \<Rightarrow>
                               let l5 = l4\<lparr>gl_as_reply := as_reply, gl_use_master := use_master\<rparr> in
                               if retval \<noteq> 0 then Some (Goto_cleanup retval (l5, w3))
                               else
                                 (case err_reply of
                                    Some e \<Rightarrow>
                                      if err_error e = KDC_ERR_PREAUTH_REQUIRED \<and> err_e_data e \<noteq> []
                                      then
                                        (case decode_krb5_padata_sequence lib (err_e_data e) of
                                           (retval, padata) \<Rightarrow>
                                             let l6 = l5\<lparr>gl_preauth_to_use := padata\<rparr> in
                                             if retval \<noteq> 0 then Some (Goto_cleanup retval (l6, w3))
                                             else
                                               (case req_server (gl_request l6) of
                                                  None \<Rightarrow> None
                                                | Some srv \<Rightarrow>
                                                    (case sort_krb5_padata_sequence context
                                                            (princ_realm srv) padata of
                                                       (retval, padata') \<Rightarrow>
                                                         let l7 = l6\<lparr>gl_preauth_to_use := padata'\<rparr> in
                                                         if retval \<noteq> 0
                                                         then Some (Goto_cleanup retval (l7, w3))
                                                         else Some (Continue (l7, w3)))))
                                      else if canon_flag \<and> err_error e = KDC_ERR_WRONG_REALM
                                      then
                                        (let l6 = l5\<lparr>gl_referral_count := gl_referral_count l5 + 1\<rparr> in
                                         if gl_referral_count l6 > KRB5_REFERRAL_MAXHOPS
                                            \<or> err_client e = None
                                            \<or> princ_realm (the (err_client e)) = []
                                         then Some (Goto_cleanup KRB5KDC_ERR_WRONG_REALM (l6, w3))
                                         else
                                           let realm = princ_realm (the (err_client e));
                                               l7 = l6\<lparr>gl_request := (gl_request l6)
                                                         \<lparr>req_client := client\<lparr>princ_realm := realm\<rparr>\<rparr>,
                                                       gl_referred_server := None\<rparr>
                                           in
                                           (case rewrite_server_realm server realm is_tgt_req of
                                              None \<Rightarrow> None
                                            | Some referred \<Rightarrow>
                                                Some (Continue
                                                  (l7\<lparr>gl_referred_server := Some referred,
                                                       gl_request := (gl_request l7)
                                                         \<lparr>req_server := Some referred\<rparr>\<rparr>, w3))))
                                      else
                                        Some (Goto_cleanup (err_error e + ERROR_TABLE_BASE_krb5)
                                                (l5, w3))
                                  | None \<Rightarrow>
                                      (case as_reply of
                                         None \<Rightarrow> Some (Goto_cleanup KRB5KRB_AP_ERR_MSG_TYPE (l5, w3))
                                       | Some r \<Rightarrow>
                                           (case krb5_process_padata ops (gl_request l5) r
                                                   (gl_decrypt_key l5) (gl_creds l5) w3 of
                                              ((retval, request', r', decrypt_key', creds', do_more), w4) \<Rightarrow>
                                                let l6 = l5\<lparr>gl_request := request',
                                                             gl_as_reply := Some r',
                                                             gl_decrypt_key := decrypt_key',
                                                             gl_creds := creds'\<rparr>
                                                in
                                                if retval \<noteq> 0 then Some (Goto_cleanup retval (l6, w4))
                                                else if do_more = 0 then Some (Break (l6, w4))
                                                else Some (Continue (l6, w4)))))))))"

text \<open>
  The loop \<^verbatim>\<open>while (1)\<close>: the test \<^verbatim>\<open>loopcount++ > MAX_IN_TKT_LOOPS\<close>, then the body. It
  returns how the loop was left (\<open>Continue\<close> does not occur in the result), with the
  final \<open>loopcount\<close>.
\<close>

function git_loop ::
  "klib \<Rightarrow> 'w ksys \<Rightarrow> 'w git_ops \<Rightarrow> krb5_context_data \<Rightarrow> bool \<Rightarrow> bool
   \<Rightarrow> krb5_principal_data \<Rightarrow> krb5_principal_data \<Rightarrow> int \<Rightarrow> git_locals \<Rightarrow> 'w
   \<Rightarrow> ((int \<times> git_locals \<times> 'w) iteration) option" where
  "git_loop lib sys ops context canon_flag is_tgt_req client server loopcount l w =
     (if loopcount > MAX_IN_TKT_LOOPS
      then Some (Goto_cleanup KRB5_GET_IN_TKT_LOOP (loopcount + 1, l, w))
      else
        (case git_body lib sys ops context canon_flag is_tgt_req client server l w of
           None \<Rightarrow> None
         | Some (Goto_cleanup retval (l', w')) \<Rightarrow> Some (Goto_cleanup retval (loopcount + 1, l', w'))
         | Some (Break (l', w')) \<Rightarrow> Some (Break (loopcount + 1, l', w'))
         | Some (Continue (l', w')) \<Rightarrow>
             git_loop lib sys ops context canon_flag is_tgt_req client server
               (loopcount + 1) l' w'))"
  by pat_completeness auto
termination
  by (relation "measure (\<lambda>(lib, sys, ops, context, canon_flag, is_tgt_req, client, server,
        loopcount, l, w). nat (MAX_IN_TKT_LOOPS + 1 - loopcount))") auto

declare git_loop.simps [simp del]

text \<open>
  \<^verbatim>\<open>krb5_get_in_tkt\<close>. \<open>addrs\<close>, \<open>ktypes\<close> and \<open>ptypes\<close> are the caller's optional lists
  (the zero-terminated arrays without their terminator), \<open>ccache\<close> says whether a cache
  was passed. The result is the code, the credentials, \<^verbatim>\<open>*ret_as_reply\<close> (taken to be
  \<^verbatim>\<open>NULL\<close> on entry) and the world.
\<close>

definition krb5_get_in_tkt ::
  "klib \<Rightarrow> 'w ksys \<Rightarrow> 'w git_ops \<Rightarrow> krb5_context_data \<Rightarrow> krb5_flags \<Rightarrow> octets list option
   \<Rightarrow> krb5_int32 list option \<Rightarrow> krb5_int32 list option \<Rightarrow> krb5_creds \<Rightarrow> bool \<Rightarrow> 'w
   \<Rightarrow> (krb5_error_code \<times> krb5_creds \<times> krb5_kdc_rep option \<times> 'w) option" where
  "krb5_get_in_tkt lib sys ops context options addrs ktypes ptypes creds ccache w =
     (case cred_client creds of
        None \<Rightarrow> None
      | Some client \<Rightarrow>
     (case cred_server creds of
        None \<Rightarrow> None
      | Some server \<Rightarrow>
          if \<not> krb5_realm_compare lib client server
          then Some (KRB5_IN_TKT_REALM_MISMATCH, creds, None, w)
          else
            let canon_flag = (options AND KDC_OPT_CANONICALIZE \<noteq> 0
                              \<or> princ_type client = KRB5_NT_ENTERPRISE_PRINCIPAL)
            in
            (case (case addrs of
                     Some a \<Rightarrow> ((0, Some a), w)
                   | None \<Rightarrow> krb5_os_localaddr sys w) of
               ((retval, addresses), w0) \<Rightarrow>
                 if retval \<noteq> 0 then Some (retval, creds, None, w0)
                 else
                   let request =
                         \<lparr>req_kdc_options = options,
                          req_client = client,
                          req_server = Some server,
                          req_from = starttime (cred_times creds),
                          req_till = endtime (cred_times creds),
                          req_rtime = renew_till (cred_times creds),
                          req_nonce = 0,
                          req_ktype =
                            (case ktypes of
                               None \<Rightarrow> get_in_tkt_enctypes
                             | Some ks \<Rightarrow>
                                 (case ktype_select ks get_in_tkt_enctypes 0 of
                                    (ktype, nxt) \<Rightarrow> take nxt ktype)),
                          req_addresses = addresses,
                          req_padata = None\<rparr>;
                       l0 = \<lparr>gl_request = request,
                             gl_creds = creds,
                             gl_preauth_to_use = map_option make_preauth_list ptypes,
                             gl_as_reply = None,
                             gl_decrypt_key = None,
                             gl_time_now = 0,
                             gl_use_master = False,
                             gl_referral_count = 0,
                             gl_referred_server = None\<rparr>;
                       is_tgt_req = tgt_is_local_realm client server
                   in
                   (case git_loop lib sys ops context canon_flag is_tgt_req client server 0 l0 w0 of
                      None \<Rightarrow> None
                    | Some (Continue x) \<Rightarrow> None
                    | Some (Goto_cleanup retval (loopcount, l, w1)) \<Rightarrow>
                        Some (retval, gl_creds l, gl_as_reply l, w1)
                    | Some (Break (loopcount, l, w1)) \<Rightarrow>
                        (case gl_as_reply l of
                           None \<Rightarrow> None
                         | Some r \<Rightarrow>
                             (case decrypt_as_reply lib (Some (key_proc ops)) (decrypt_proc ops) r
                                     (gl_decrypt_key l) w1 of
                                None \<Rightarrow> None
                              | Some (retval, r1, w2) \<Rightarrow>
                                  if retval \<noteq> 0 then Some (retval, gl_creds l, Some r1, w2)
                                  else
                                    (case verify_as_reply lib sys context (gl_time_now l)
                                            (gl_request l) r1 w2 of
                                       None \<Rightarrow> None
                                     | Some (retval, r2, w3) \<Rightarrow>
                                         if retval \<noteq> 0 then Some (retval, gl_creds l, Some r2, w3)
                                         else
                                           (case stash_as_reply lib sys r2 (gl_creds l) ccache w3 of
                                              None \<Rightarrow> None
                                            | Some (retval, creds', w4) \<Rightarrow>
                                                Some (retval, creds', Some r2, w4)))))))))"

subsection \<open>The step interface\<close>

definition SALT_TYPE_AFS_LENGTH :: "32 word" where
  "SALT_TYPE_AFS_LENGTH = 0xFFFFFFFF"

text \<open>
  The salt is the one \<^verbatim>\<open>krb5_data\<close> whose length is tested apart from its contents (the
  pair \<^verbatim>\<open>SALT_TYPE_AFS_LENGTH\<close>, \<^verbatim>\<open>NULL\<close> says that no salt is known yet).
\<close>

record krb5_salt =
  salt_length :: "32 word"
  salt_data :: "octets option"

text \<open>The values a pre-authentication call reads and writes through pointers.\<close>

record preauth_vars =
  pv_salt :: krb5_salt
  pv_s2kparams :: octets
  pv_etype :: krb5_int32
  pv_as_key :: krb5_keyblock

record krb5_init_creds_context =
  icc_request :: krb5_kdc_req
  icc_err_reply :: "krb5_error option"
  icc_reply :: "krb5_kdc_rep option"
  icc_cred :: krb5_creds
  icc_encoded_request_body :: "octets option"
  icc_encoded_previous_request :: "octets option"
  icc_preauth_to_use :: "krb5_pa_data list option"
  icc_vars :: preauth_vars
  icc_loopcount :: int
  icc_request_time :: krb5_timestamp
  icc_start_time :: krb5_int32
  icc_tkt_life :: krb5_int32
  icc_renew_life :: krb5_int32
  icc_in_tkt_service :: "string option"

text \<open>
  The FAST and pre-authentication entry points, the key callback \<open>gak_fct\<close> and the
  decryption callback of the step interface. Each returns its code first, then the
  values it leaves behind its pointer arguments.
\<close>

record 'w icc_ops =
  krb5int_fast_process_error ::
    "krb5_error \<Rightarrow> 'w
     \<Rightarrow> (krb5_error_code \<times> krb5_error option \<times> krb5_pa_data list option \<times> bool) \<times> 'w"
  krb5int_fast_process_response ::
    "krb5_kdc_rep \<Rightarrow> 'w \<Rightarrow> (krb5_error_code \<times> krb5_kdc_rep \<times> krb5_keyblock option) \<times> 'w"
  krb5int_fast_reply_key ::
    "krb5_keyblock option \<Rightarrow> krb5_keyblock \<Rightarrow> 'w \<Rightarrow> (krb5_error_code \<times> krb5_keyblock) \<times> 'w"
  krb5int_fast_as_armor :: "krb5_kdc_req \<Rightarrow> 'w \<Rightarrow> (krb5_error_code \<times> krb5_kdc_req) \<times> 'w"
  krb5_preauth_prepare_request :: "krb5_kdc_req \<Rightarrow> 'w \<Rightarrow> krb5_kdc_req \<times> 'w"
  krb5int_fast_prep_req_body ::
    "krb5_kdc_req \<Rightarrow> 'w \<Rightarrow> (krb5_error_code \<times> octets option) \<times> 'w"
  krb5int_fast_prep_req ::
    "krb5_kdc_req \<Rightarrow> octets option \<Rightarrow> 'w \<Rightarrow> (krb5_error_code \<times> octets option) \<times> 'w"
  krb5_do_preauth ::
    "krb5_kdc_req \<Rightarrow> octets option \<Rightarrow> octets option \<Rightarrow> krb5_pa_data list option
     \<Rightarrow> preauth_vars \<Rightarrow> 'w
     \<Rightarrow> (krb5_error_code \<times> krb5_kdc_req \<times> krb5_pa_data list option \<times> preauth_vars) \<times> 'w"
  krb5_do_preauth_tryagain ::
    "krb5_kdc_req \<Rightarrow> octets option \<Rightarrow> octets option \<Rightarrow> krb5_pa_data list option
     \<Rightarrow> krb5_error \<Rightarrow> preauth_vars \<Rightarrow> 'w
     \<Rightarrow> (krb5_error_code \<times> krb5_kdc_req \<times> krb5_pa_data list option \<times> preauth_vars) \<times> 'w"
  gak_fct ::
    "krb5_principal_data \<Rightarrow> krb5_int32 \<Rightarrow> preauth_vars \<Rightarrow> 'w
     \<Rightarrow> (krb5_error_code \<times> preauth_vars) \<times> 'w"
  krb5_kdc_rep_decrypt_proc ::
    "krb5_keyblock option \<Rightarrow> krb5_kdc_rep \<Rightarrow> 'w \<Rightarrow> (krb5_error_code \<times> krb5_kdc_rep) \<times> 'w"
  krb5_clear_preauth_context_use_counts :: "'w \<Rightarrow> 'w"
  krb5_preauth_request_context_fini :: "'w \<Rightarrow> 'w"

text \<open>
  \<^verbatim>\<open>krb5int_copy_data_contents\<close> of the library: \<^verbatim>\<open>EINVAL\<close> for a \<^verbatim>\<open>NULL\<close> source, else a
  copy. It returns the code and the destination, which a failed call leaves as it was.
\<close>

definition krb5int_copy_data_contents ::
  "octets option \<Rightarrow> octets \<Rightarrow> krb5_error_code \<times> octets" where
  "krb5int_copy_data_contents indata outdata =
     (case indata of None \<Rightarrow> (EINVAL, outdata) | Some d \<Rightarrow> (0, d))"

text \<open>\<^verbatim>\<open>krb5_init_creds_get_error\<close>: the code and \<^verbatim>\<open>*error\<close>.\<close>

definition krb5_init_creds_get_error ::
  "krb5_init_creds_context \<Rightarrow> krb5_error_code \<times> krb5_error option" where
  "krb5_init_creds_get_error ctx =
     (case icc_err_reply ctx of
        None \<Rightarrow> (0, None)
      | Some e \<Rightarrow>
          (0, Some \<lparr>err_ctime = err_ctime e, err_cusec = err_cusec e, err_susec = err_susec e,
                    err_stime = err_stime e, err_error = err_error e,
                    err_client = err_client e, err_server = err_server e,
                    err_text = err_text e, err_e_data = err_e_data e\<rparr>))"

text \<open>\<^verbatim>\<open>init_creds_validate_reply\<close>, the classifier of the step interface.\<close>

definition init_creds_validate_reply ::
  "klib \<Rightarrow> krb5_init_creds_context \<Rightarrow> octets
   \<Rightarrow> (krb5_error_code \<times> krb5_init_creds_context) option" where
  "init_creds_validate_reply lib ctx reply =
     (let ctx0 = ctx\<lparr>icc_err_reply := None, icc_reply := None\<rparr> in
      if krb5_is_krb_error lib reply then
        (case decode_krb5_error lib reply of
           (code, error) \<Rightarrow>
             if code \<noteq> 0 then Some (code, ctx0)
             else
               (case error of
                  None \<Rightarrow> None
                | Some e \<Rightarrow>
                    if err_error e = KRB_ERR_RESPONSE_TOO_BIG
                    then Some (KRB5KRB_ERR_RESPONSE_TOO_BIG, ctx0)
                    else Some (0, ctx0\<lparr>icc_err_reply := Some e\<rparr>)))
      else if reply \<noteq> [] \<and> \<not> krb5_is_as_rep lib reply then
        (if length reply < 2 then None
         else
           let t_switch = char_to_uint lib (reply ! 1) AND NOT 1 in
           if t_switch = V4_AUTH_MSG_ERR_REPLY \<and> reply ! 0 = V4_KRB_PROT_VERSION
           then Some (KRB5KRB_AP_ERR_V4_REPLY, ctx0)
           else Some (KRB5KRB_AP_ERR_MSG_TYPE, ctx0))
      else
        (case decode_krb5_as_rep lib reply of
           (code, as_reply) \<Rightarrow>
             if code \<noteq> 0 then Some (code, ctx0)
             else
               (case as_reply of
                  None \<Rightarrow> None
                | Some r \<Rightarrow>
                    if rep_msg_type r \<noteq> KRB5_AS_REP then Some (KRB5KRB_AP_ERR_MSG_TYPE, ctx0)
                    else Some (0, ctx0\<lparr>icc_reply := Some r\<rparr>))))"

text \<open>
  \<^verbatim>\<open>init_creds_step_reply\<close>, in four parts that follow the text of the function: the
  branch for a KRB-ERROR, and for an AS-REP the pre-authentication of the reply, its
  decryption, and its verification and storage. Each returns the code with which the
  function would go to \<^verbatim>\<open>cleanup\<close> (0 to go on).
\<close>

definition step_reply_error ::
  "'w icc_ops \<Rightarrow> krb5_context_data \<Rightarrow> krb5_init_creds_context \<Rightarrow> krb5_error \<Rightarrow> 'w
   \<Rightarrow> (krb5_error_code \<times> krb5_init_creds_context \<times> 'w) option" where
  "step_reply_error ops context ctx err w =
     (let canon_flag = (req_kdc_options (icc_request ctx) AND KDC_OPT_CANONICALIZE \<noteq> 0
                        \<or> princ_type (req_client (icc_request ctx))
                            = KRB5_NT_ENTERPRISE_PRINCIPAL)
      in
      (case krb5int_fast_process_error ops err w of
         ((code, err_reply, padata, retry), w1) \<Rightarrow>
           let ctx1 = ctx\<lparr>icc_err_reply := err_reply\<rparr> in
           if code \<noteq> 0 then Some (code, ctx1, w1)
           else
             (case err_reply of
                None \<Rightarrow> None
              | Some e \<Rightarrow>
                  if err_error e = KDC_ERR_PREAUTH_REQUIRED \<and> retry then
                    (case sort_krb5_padata_sequence context
                            (princ_realm (req_client (icc_request ctx1))) padata of
                       (code, padata') \<Rightarrow>
                         Some (code, ctx1\<lparr>icc_preauth_to_use := padata'\<rparr>, w1))
                  else if canon_flag \<and> err_error e = KDC_ERR_WRONG_REALM then
                    (case err_client e of
                       None \<Rightarrow> Some (KRB5KDC_ERR_WRONG_REALM, ctx1, w1)
                     | Some c \<Rightarrow>
                         if princ_realm c = [] then Some (KRB5KDC_ERR_WRONG_REALM, ctx1, w1)
                         else
                           Some (0,
                                 ctx1\<lparr>icc_request := (icc_request ctx1)
                                        \<lparr>req_client := (req_client (icc_request ctx1))
                                           \<lparr>princ_realm := princ_realm c\<rparr>\<rparr>\<rparr>,
                                 w1))
                  else if retry then Some (0, ctx1, w1)
                  else Some (err_error e + ERROR_TABLE_BASE_krb5, ctx1, w1))))"

text \<open>It returns the code, the context, the reply, \<open>strengthen_key\<close> and the world.\<close>

definition step_reply_preauth ::
  "klib \<Rightarrow> 'w icc_ops \<Rightarrow> krb5_context_data \<Rightarrow> krb5_init_creds_context \<Rightarrow> krb5_kdc_rep \<Rightarrow> 'w
   \<Rightarrow> krb5_error_code \<times> krb5_init_creds_context \<times> krb5_kdc_rep \<times> krb5_keyblock option \<times> 'w"
  where
  "step_reply_preauth lib ops context ctx reply w =
     (let w0 = krb5_clear_preauth_context_use_counts ops w in
      (case krb5int_fast_process_response ops reply w0 of
         ((code, reply1, strengthen_key), w1) \<Rightarrow>
           if code \<noteq> 0 then (code, ctx, reply1, strengthen_key, w1)
           else
             (case sort_krb5_padata_sequence context
                     (princ_realm (req_client (icc_request ctx))) (rep_padata reply1) of
                (code, padata') \<Rightarrow>
                  let reply2 = reply1\<lparr>rep_padata := padata'\<rparr> in
                  if code \<noteq> 0 then (code, ctx, reply2, strengthen_key, w1)
                  else
                    let ctx1 = ctx\<lparr>icc_vars := (icc_vars ctx)\<lparr>pv_etype := rep_enctype reply2\<rparr>\<rparr> in
                    (case krb5_do_preauth ops (icc_request ctx1) (icc_encoded_request_body ctx1)
                            (icc_encoded_previous_request ctx1) (rep_padata reply2)
                            (icc_vars ctx1) w1 of
                       ((code, request', kdc_padata, vars'), w2) \<Rightarrow>
                         let ctx2 = ctx1\<lparr>icc_request := request', icc_vars := vars'\<rparr> in
                         if code \<noteq> 0 then (code, ctx2, reply2, strengthen_key, w2)
                         else if salt_length (pv_salt (icc_vars ctx2)) = SALT_TYPE_AFS_LENGTH
                                 \<and> salt_data (pv_salt (icc_vars ctx2)) = None
                         then
                           (case krb5_principal2salt lib (rep_client reply2) of
                              (code, salt) \<Rightarrow>
                                if code \<noteq> 0 then (code, ctx2, reply2, strengthen_key, w2)
                                else
                                  (0,
                                   ctx2\<lparr>icc_vars := (icc_vars ctx2)
                                          \<lparr>pv_salt := \<lparr>salt_length = of_nat (length salt),
                                                       salt_data = Some salt\<rparr>\<rparr>\<rparr>,
                                   reply2, strengthen_key, w2))
                         else (0, ctx2, reply2, strengthen_key, w2)))))"

text \<open>
  The two attempts at decryption: with the key at hand if there is one, and after a
  failure (or without a key) with the key that \<open>gak_fct\<close> supplies.
\<close>

definition step_reply_decrypt ::
  "klib \<Rightarrow> 'w icc_ops \<Rightarrow> krb5_init_creds_context \<Rightarrow> krb5_kdc_rep \<Rightarrow> krb5_keyblock option \<Rightarrow> 'w
   \<Rightarrow> (krb5_error_code \<times> krb5_init_creds_context \<times> krb5_kdc_rep \<times> 'w) option" where
  "step_reply_decrypt lib ops ctx reply strengthen_key w =
     (case (if kb_contents (pv_as_key (icc_vars ctx)) \<noteq> [] then
              (case krb5int_fast_reply_key ops strengthen_key (pv_as_key (icc_vars ctx)) w of
                 ((code, encrypting_key), w1) \<Rightarrow>
                   if code \<noteq> 0 then Some (True, code, reply, w1)
                   else
                     map_option (\<lambda>(code, reply', w'). (False, code, reply', w'))
                       (decrypt_as_reply lib None (krb5_kdc_rep_decrypt_proc ops) reply
                          (Some encrypting_key) w1))
            else Some (False, - 1, reply, w)) of
        None \<Rightarrow> None
      | Some (cleanup, code, reply1, w1) \<Rightarrow>
          if cleanup then Some (code, ctx, reply1, w1)
          else if code \<noteq> 0 then
            (case gak_fct ops (req_client (icc_request ctx)) (rep_enctype reply1)
                    (icc_vars ctx) w1 of
               ((code, vars'), w2) \<Rightarrow>
                 let ctx1 = ctx\<lparr>icc_vars := vars'\<rparr> in
                 if code \<noteq> 0 then Some (code, ctx1, reply1, w2)
                 else
                   (case krb5int_fast_reply_key ops strengthen_key (pv_as_key (icc_vars ctx1)) w2 of
                      ((code, encrypting_key), w3) \<Rightarrow>
                        if code \<noteq> 0 then Some (code, ctx1, reply1, w3)
                        else
                          map_option (\<lambda>(code, reply', w'). (code, ctx1, reply', w'))
                            (decrypt_as_reply lib None (krb5_kdc_rep_decrypt_proc ops) reply1
                               (Some encrypting_key) w3)))
          else Some (code, ctx, reply1, w1))"

text \<open>It returns the code, the context, the reply, \<^verbatim>\<open>*flags\<close> and the world.\<close>

definition step_reply_finish ::
  "klib \<Rightarrow> 'w ksys \<Rightarrow> 'w icc_ops \<Rightarrow> krb5_context_data \<Rightarrow> krb5_init_creds_context
   \<Rightarrow> krb5_kdc_rep \<Rightarrow> 32 word \<Rightarrow> 'w
   \<Rightarrow> (krb5_error_code \<times> krb5_init_creds_context \<times> krb5_kdc_rep \<times> 32 word \<times> 'w) option" where
  "step_reply_finish lib sys ops context ctx reply flags w =
     (case verify_as_reply lib sys context (icc_request_time ctx) (icc_request ctx) reply w of
        None \<Rightarrow> None
      | Some (code, reply1, w1) \<Rightarrow>
          if code \<noteq> 0 then Some (code, ctx, reply1, flags, w1)
          else
            (case stash_as_reply lib sys reply1 (icc_cred ctx) False w1 of
               None \<Rightarrow> None
             | Some (code, cred', w2) \<Rightarrow>
                 let ctx1 = ctx\<lparr>icc_cred := cred'\<rparr> in
                 if code \<noteq> 0 then Some (code, ctx1, reply1, flags, w2)
                 else
                   Some (0, ctx1, reply1, flags OR KRB5_INIT_CREDS_STEP_FLAG_COMPLETE,
                         krb5_preauth_request_context_fini ops w2)))"

text \<open>
  \<^verbatim>\<open>init_creds_step_reply\<close>: the code, the context, \<^verbatim>\<open>*flags\<close> and the world. The reply
  that the parts work on is \<^verbatim>\<open>ctx->reply\<close>, stored back as they leave it.
\<close>

definition init_creds_step_reply ::
  "klib \<Rightarrow> 'w ksys \<Rightarrow> 'w icc_ops \<Rightarrow> krb5_context_data \<Rightarrow> krb5_init_creds_context \<Rightarrow> octets
   \<Rightarrow> 32 word \<Rightarrow> 'w \<Rightarrow> (krb5_error_code \<times> krb5_init_creds_context \<times> 32 word \<times> 'w) option"
  where
  "init_creds_step_reply lib sys ops context ctx in_data flags w =
     (case init_creds_validate_reply lib ctx in_data of
        None \<Rightarrow> None
      | Some (code, ctx1) \<Rightarrow>
          if code \<noteq> 0 then Some (code, ctx1, flags, w)
          else
            (case icc_err_reply ctx1 of
               Some err \<Rightarrow>
                 map_option (\<lambda>(code, ctx', w'). (code, ctx', flags, w'))
                   (step_reply_error ops context ctx1 err w)
             | None \<Rightarrow>
                 (case icc_reply ctx1 of
                    None \<Rightarrow> None
                  | Some reply \<Rightarrow>
                      if icc_loopcount ctx1 \<ge> MAX_IN_TKT_LOOPS
                      then Some (KRB5_GET_IN_TKT_LOOP, ctx1, flags, w)
                      else
                        (case step_reply_preauth lib ops context ctx1 reply w of
                           (code, ctx2, reply2, strengthen_key, w2) \<Rightarrow>
                             if code \<noteq> 0
                             then Some (code, ctx2\<lparr>icc_reply := Some reply2\<rparr>, flags, w2)
                             else
                               (case step_reply_decrypt lib ops ctx2 reply2 strengthen_key w2 of
                                  None \<Rightarrow> None
                                | Some (code, ctx3, reply3, w3) \<Rightarrow>
                                    if code \<noteq> 0
                                    then Some (code, ctx3\<lparr>icc_reply := Some reply3\<rparr>, flags, w3)
                                    else
                                      map_option
                                        (\<lambda>(code, ctx4, reply4, flags', w4).
                                           (code, ctx4\<lparr>icc_reply := Some reply4\<rparr>, flags', w4))
                                        (step_reply_finish lib sys ops context ctx3 reply3
                                           flags w3))))))"

text \<open>
  \<^verbatim>\<open>build_in_tkt_name\<close>: the code and \<^verbatim>\<open>*server\<close>. \<^verbatim>\<open>krb5_build_principal_ext\<close> builds
  \<^verbatim>\<open>krbtgt/REALM@REALM\<close> from the client's realm.
\<close>

definition build_in_tkt_name ::
  "klib \<Rightarrow> string option \<Rightarrow> krb5_principal_data
   \<Rightarrow> (krb5_error_code \<times> krb5_principal_data option) option" where
  "build_in_tkt_name lib in_tkt_service client =
     (case in_tkt_service of
        Some service \<Rightarrow>
          (case krb5_parse_name lib service of
             (ret, server) \<Rightarrow>
               if ret \<noteq> 0 then Some (ret, server)
               else
                 (case server of
                    None \<Rightarrow> None
                  | Some srv \<Rightarrow> Some (ret, Some (srv\<lparr>princ_realm := princ_realm client\<rparr>))))
      | None \<Rightarrow>
          Some (0, Some \<lparr>princ_realm = princ_realm client,
                         princ_data = [KRB5_TGS_NAME, princ_realm client],
                         princ_type = KRB5_NT_UNKNOWN\<rparr>))"

text \<open>The block of \<^verbatim>\<open>init_creds_step_request\<close> under \<^verbatim>\<open>if (ctx->loopcount == 0)\<close>.\<close>

definition step_request_first ::
  "'w ksys \<Rightarrow> 'w icc_ops \<Rightarrow> krb5_init_creds_context \<Rightarrow> 'w
   \<Rightarrow> krb5_error_code \<times> krb5_init_creds_context \<times> 'w" where
  "step_request_first sys ops ctx w =
     (case krb5_timeofday sys w of
        ((code, now), w1) \<Rightarrow>
          let ctx1 = ctx\<lparr>icc_request_time := now\<rparr> in
          if code \<noteq> 0 then (code, ctx1, w1)
          else
            (case krb5int_fast_as_armor ops (icc_request ctx1) w1 of
               ((code, request2), w2) \<Rightarrow>
                 let ctx2 = ctx1\<lparr>icc_request := request2\<rparr> in
                 if code \<noteq> 0 then (code, ctx2, w2)
                 else
                   (case krb5_preauth_prepare_request ops (icc_request ctx2) w2 of
                      (request3, w3) \<Rightarrow>
                        (case krb5int_fast_prep_req_body ops request3 w3 of
                           ((code, body), w4) \<Rightarrow>
                             let ctx3 = ctx2\<lparr>icc_request := request3,
                                            icc_encoded_request_body := body\<rparr>
                             in
                             if code \<noteq> 0 then (code, ctx3, w4)
                             else
                               let from = krb5int_addint32 (icc_request_time ctx3)
                                            (icc_start_time ctx3);
                                   request4 = (icc_request ctx3)\<lparr>req_from := from\<rparr>;
                                   request5 =
                                     (if 0 <s icc_renew_life ctx3 then
                                        (let rtime = krb5int_addint32 from (icc_renew_life ctx3)
                                         in request4
                                              \<lparr>req_rtime := (if rtime <s req_till request4
                                                              then req_till request4 else rtime),
                                               req_kdc_options := req_kdc_options request4
                                                                  AND NOT KDC_OPT_RENEWABLE_OK\<rparr>)
                                      else request4\<lparr>req_rtime := 0\<rparr>)
                               in (0, ctx3\<lparr>icc_request := request5\<rparr>, w4)))))"

text \<open>\<^verbatim>\<open>init_creds_step_request\<close>: the code, the context, \<^verbatim>\<open>*out\<close> and the world.\<close>

definition init_creds_step_request ::
  "klib \<Rightarrow> 'w ksys \<Rightarrow> 'w icc_ops \<Rightarrow> krb5_init_creds_context \<Rightarrow> octets \<Rightarrow> 'w
   \<Rightarrow> (krb5_error_code \<times> krb5_init_creds_context \<times> octets \<times> 'w) option" where
  "init_creds_step_request lib sys ops ctx out w =
     (case build_in_tkt_name lib (icc_in_tkt_service ctx) (req_client (icc_request ctx)) of
        None \<Rightarrow> None
      | Some (code, server) \<Rightarrow>
          let ctx1 = ctx\<lparr>icc_request := (icc_request ctx)\<lparr>req_server := server\<rparr>\<rparr> in
          if code \<noteq> 0 then Some (code, ctx1, out, w)
          else
            (case (if icc_loopcount ctx1 = 0 then step_request_first sys ops ctx1 w
                   else (0, ctx1, w)) of
               (code, ctx2, w2) \<Rightarrow>
                 if code \<noteq> 0 then Some (code, ctx2, out, w2)
                 else
                   (case (case icc_err_reply ctx2 of
                            None \<Rightarrow>
                              (case krb5_do_preauth ops (icc_request ctx2)
                                      (icc_encoded_request_body ctx2)
                                      (icc_encoded_previous_request ctx2)
                                      (icc_preauth_to_use ctx2) (icc_vars ctx2) w2 of
                                 ((code, request', padata, vars'), w3) \<Rightarrow>
                                   (code,
                                    ctx2\<lparr>icc_request := request'\<lparr>req_padata := padata\<rparr>,
                                         icc_vars := vars'\<rparr>, w3))
                          | Some err \<Rightarrow>
                              (case (if icc_preauth_to_use ctx2 \<noteq> None then
                                       (case krb5_do_preauth_tryagain ops (icc_request ctx2)
                                               (icc_encoded_request_body ctx2)
                                               (icc_encoded_previous_request ctx2)
                                               (icc_preauth_to_use ctx2) err (icc_vars ctx2) w2 of
                                          ((code, request', padata, vars'), w3) \<Rightarrow>
                                            (code,
                                             ctx2\<lparr>icc_request := request'\<lparr>req_padata := padata\<rparr>,
                                                  icc_vars := vars'\<rparr>, w3))
                                     else (KRB5KRB_ERR_GENERIC, ctx2, w2)) of
                                 (code, ctx3, w3) \<Rightarrow>
                                   if code \<noteq> 0
                                   then (err_error err + ERROR_TABLE_BASE_krb5, ctx3, w3)
                                   else (code, ctx3, w3))) of
                      (code, ctx3, w3) \<Rightarrow>
                        if code \<noteq> 0 then Some (code, ctx3, out, w3)
                        else
                          (case krb5int_fast_prep_req ops (icc_request ctx3)
                                  (icc_encoded_request_body ctx3) w3 of
                             ((code, encoded), w4) \<Rightarrow>
                               let ctx4 = ctx3\<lparr>icc_encoded_previous_request := encoded\<rparr> in
                               if code \<noteq> 0 then Some (code, ctx4, out, w4)
                               else
                                 (case krb5int_copy_data_contents
                                         (icc_encoded_previous_request ctx4) out of
                                    (code, out') \<Rightarrow> Some (code, ctx4, out', w4))))))"

text \<open>
  \<^verbatim>\<open>krb5_init_creds_step\<close>: the code, the context, \<^verbatim>\<open>*out\<close>, \<^verbatim>\<open>*realm\<close>, \<^verbatim>\<open>*flags\<close> and the
  world. \<open>step_cleanup\<close> is the code under the label \<^verbatim>\<open>cleanup\<close>.
\<close>

definition step_cleanup ::
  "klib \<Rightarrow> 'w ksys \<Rightarrow> krb5_error_code \<Rightarrow> krb5_init_creds_context \<Rightarrow> 'w \<Rightarrow> 'w" where
  "step_cleanup lib sys code ctx w =
     (if code = KRB5KDC_ERR_C_PRINCIPAL_UNKNOWN then
        (case krb5_unparse_name lib (req_client (icc_request ctx)) of
           (ret, client_name) \<Rightarrow>
             if ret = 0
             then krb5_set_error_message sys code
                    (''Client '' @ [CHR 0x27] @ client_name @ [CHR 0x27]
                     @ '' not found in Kerberos database'') w
             else w)
      else w)"

definition krb5_init_creds_step ::
  "klib \<Rightarrow> 'w ksys \<Rightarrow> 'w icc_ops \<Rightarrow> krb5_context_data \<Rightarrow> krb5_init_creds_context \<Rightarrow> octets
   \<Rightarrow> 'w
   \<Rightarrow> (krb5_error_code \<times> krb5_init_creds_context \<times> octets \<times> string \<times> 32 word \<times> 'w) option"
  where
  "krb5_init_creds_step lib sys ops context ctx in_data w =
     (case (if in_data \<noteq> [] then
              (case init_creds_step_reply lib sys ops context ctx in_data 0 w of
                 None \<Rightarrow> None
               | Some (code, ctx1, flags, w1) \<Rightarrow>
                   (case (if code = KRB5KRB_ERR_RESPONSE_TOO_BIG
                          then krb5int_copy_data_contents (icc_encoded_previous_request ctx1) []
                          else (code, [])) of
                      (code', out) \<Rightarrow>
                        Some (code' \<noteq> 0 \<or> flags AND KRB5_INIT_CREDS_STEP_FLAG_COMPLETE \<noteq> 0,
                              code', ctx1, out, flags, w1)))
            else Some (False, 0, ctx, [], 0, w)) of
        None \<Rightarrow> None
      | Some (cleanup, code, ctx1, out, flags, w1) \<Rightarrow>
          if cleanup then Some (code, ctx1, out, [], flags, step_cleanup lib sys code ctx1 w1)
          else
            (case init_creds_step_request lib sys ops ctx1 out w1 of
               None \<Rightarrow> None
             | Some (code, ctx2, out', w2) \<Rightarrow>
                 if code \<noteq> 0
                 then Some (code, ctx2, out', [], flags, step_cleanup lib sys code ctx2 w2)
                 else
                   (case req_server (icc_request ctx2) of
                      None \<Rightarrow> None
                    | Some server \<Rightarrow>
                        let ctx3 = ctx2\<lparr>icc_loopcount := icc_loopcount ctx2 + 1\<rparr> in
                        Some (0, ctx3, out', princ_realm server, flags,
                              step_cleanup lib sys 0 ctx3 w2))))"

text \<open>
  \<^verbatim>\<open>krb5int_init_creds_get_ext\<close>: the loop \<^verbatim>\<open>for (;;)\<close> around \<^verbatim>\<open>krb5_init_creds_step\<close> and
  the transport, which need not end, and the function with its test of \<^verbatim>\<open>ctx->reply\<close>.
  The result is the code, the context, \<^verbatim>\<open>*use_master\<close> and the world; \<open>None\<close> is a call
  that does not return.
\<close>

partial_function (option) init_creds_get_loop ::
  "klib \<Rightarrow> 'w ksys \<Rightarrow> 'w icc_ops \<Rightarrow> krb5_context_data \<Rightarrow> krb5_init_creds_context \<Rightarrow> octets
   \<Rightarrow> bool \<Rightarrow> bool \<Rightarrow> 'w \<Rightarrow> (krb5_error_code \<times> krb5_init_creds_context \<times> bool \<times> 'w) option"
  where
  "init_creds_get_loop lib sys ops context ctx reply tcp_only use_master w =
     (case krb5_init_creds_step lib sys ops context ctx reply w of
        None \<Rightarrow> None
      | Some (code, ctx1, request, realm, flags, w1) \<Rightarrow>
          if \<not> (code = KRB5KRB_ERR_RESPONSE_TOO_BIG \<and> \<not> tcp_only)
             \<and> (code \<noteq> 0 \<or> flags AND KRB5_INIT_CREDS_STEP_FLAG_COMPLETE \<noteq> 0)
          then Some (code, ctx1, use_master, w1)
          else
            let tcp_only' = (tcp_only \<or> code = KRB5KRB_ERR_RESPONSE_TOO_BIG) in
            (case krb5_sendto_kdc sys request realm use_master tcp_only' w1 of
               ((code', reply', use_master'), w2) \<Rightarrow>
                 if code' \<noteq> 0 then Some (code', ctx1, use_master', w2)
                 else init_creds_get_loop lib sys ops context ctx1 reply' tcp_only'
                        use_master' w2))"

declare init_creds_get_loop.simps [code]

definition krb5int_init_creds_get_ext ::
  "klib \<Rightarrow> 'w ksys \<Rightarrow> 'w icc_ops \<Rightarrow> krb5_context_data \<Rightarrow> krb5_init_creds_context \<Rightarrow> bool
   \<Rightarrow> 'w \<Rightarrow> (krb5_error_code \<times> krb5_init_creds_context \<times> bool \<times> 'w) option" where
  "krb5int_init_creds_get_ext lib sys ops context ctx use_master w =
     (if icc_reply ctx \<noteq> None then Some (0, ctx, use_master, w)
      else init_creds_get_loop lib sys ops context ctx [] False use_master w)"

section \<open>A scripted environment\<close>

text \<open>
  Concrete collaborators, for running the model: a toy wire format (a KRB-ERROR is the
  byte \<open>0x7e\<close>, the error number and the e-data, one byte per pre-authentication type;
  an AS-REP is the byte \<open>0x6b\<close>; a request is the byte \<open>0x6a\<close>, the low byte of the nonce
  and the contents of its padata), a transport that answers from a script of replies
  and records what it was sent, and an encrypted-timestamp method whose output is the
  reading of a clock that advances with every use. The all-in-one driver takes its
  nonce from the clock, so its decryption callback answers with the clock as nonce; the
  step interface keeps the nonce 7 of its context.
\<close>

definition KRB5_KDC_UNREACH :: krb5_error_code where
  "KRB5_KDC_UNREACH = ERROR_TABLE_BASE_krb5 + 156"

definition alice :: krb5_principal_data where
  "alice = \<lparr>princ_realm = ''EX'', princ_data = [''alice''], princ_type = 1\<rparr>"

definition Alice :: krb5_principal_data where
  "Alice = \<lparr>princ_realm = ''EX'', princ_data = [''Alice''], princ_type = 1\<rparr>"

definition krbtgt_EX :: krb5_principal_data where
  "krbtgt_EX = \<lparr>princ_realm = ''EX'', princ_data = [''krbtgt'', ''EX''], princ_type = 0\<rparr>"

definition key0 :: krb5_keyblock where
  "key0 = \<lparr>kb_enctype = 23, kb_contents = [1, 2, 3, 4]\<rparr>"

definition times0 :: krb5_ticket_times where
  "times0 = \<lparr>authtime = 1000, starttime = 1000, endtime = 37000, renew_till = 0\<rparr>"

definition enc0 :: krb5_enc_kdc_rep_part where
  "enc0 = \<lparr>enc2_session = key0, enc2_nonce = 7, enc2_flags = 0, enc2_times = times0,
            enc2_server = krbtgt_EX, enc2_caddrs = []\<rparr>"

definition rep0 :: krb5_kdc_rep where
  "rep0 = \<lparr>rep_msg_type = KRB5_AS_REP, rep_padata = None, rep_client = alice,
            rep_ticket = \<lparr>tkt_server = krbtgt_EX, tkt_enc_part = [9, 9]\<rparr>,
            rep_enctype = 23, rep_ciphertext = [5, 5], rep_enc_part2 = None\<rparr>"

definition toy_error :: "octets \<Rightarrow> krb5_error" where
  "toy_error d = \<lparr>err_ctime = 0, err_cusec = 0, err_susec = 0, err_stime = 0,
                  err_error = ucast (d ! 1), err_client = None, err_server = krbtgt_EX,
                  err_text = [], err_e_data = drop 2 d\<rparr>"

definition toy_padata :: "octets \<Rightarrow> krb5_pa_data list" where
  "toy_padata d = map (\<lambda>b. \<lparr>pa_type = ucast b, pa_contents = []\<rparr>) d"

definition toy_request :: "krb5_kdc_req \<Rightarrow> octets" where
  "toy_request r =
     0x6a # ucast (req_nonce r)
     # concat (map pa_contents (case req_padata r of None \<Rightarrow> [] | Some ps \<Rightarrow> ps))"

definition lib0 :: klib where
  "lib0 = \<lparr>char_signed = True,
           krb5_is_krb_error = (\<lambda>d. d \<noteq> [] \<and> (d ! 0 = 0x7e \<or> d ! 0 = 0x5e)),
           krb5_is_as_rep = (\<lambda>d. d \<noteq> [] \<and> (d ! 0 = 0x6b \<or> d ! 0 = 0x4b)),
           decode_krb5_error = (\<lambda>d. (0, Some (toy_error d))),
           decode_krb5_as_rep = (\<lambda>d. (0, Some rep0)),
           decode_krb5_padata_sequence = (\<lambda>d. (0, Some (toy_padata d))),
           encode_krb5_as_req = (\<lambda>r. (0, toy_request r)),
           encode_krb5_ticket = (\<lambda>t. (0, tkt_enc_part t)),
           krb5_principal2salt = (\<lambda>p. (0, map of_char (princ_realm p @ concat (princ_data p)))),
           krb5_principal_compare =
             (\<lambda>a b. princ_realm a = princ_realm b \<and> princ_data a = princ_data b),
           krb5_realm_compare = (\<lambda>a b. princ_realm a = princ_realm b),
           krb5_parse_name =
             (\<lambda>s. (0, Some \<lparr>princ_realm = [], princ_data = [s], princ_type = 1\<rparr>)),
           krb5_unparse_name = (\<lambda>p. (0, concat (princ_data p) @ ''@'' @ princ_realm p))\<rparr>"

record test_world =
  tw_clock :: krb5_timestamp
  tw_sent :: "octets list"
  tw_replies :: "octets list"

definition sys0 :: "test_world ksys" where
  "sys0 = \<lparr>krb5_timeofday = (\<lambda>w. ((0, tw_clock w), w)),
           krb5_sendto_kdc =
             (\<lambda>request realm use_master tcp_only w.
                case tw_replies w of
                  [] \<Rightarrow> ((KRB5_KDC_UNREACH, [], use_master), w\<lparr>tw_sent := tw_sent w @ [request]\<rparr>)
                | r # rs \<Rightarrow>
                    ((0, r, use_master),
                     w\<lparr>tw_sent := tw_sent w @ [request], tw_replies := rs\<rparr>)),
           krb5_set_real_time = (\<lambda>t w. (0, w)),
           krb5_cc_store_cred = (\<lambda>c w. (0, w)),
           krb5_os_localaddr = (\<lambda>w. ((0, Some []), w)),
           krb5_set_error_message = (\<lambda>code msg w. w)\<rparr>"

definition timestamp_padata :: "test_world \<Rightarrow> krb5_pa_data list" where
  "timestamp_padata w = [\<lparr>pa_type = 2, pa_contents = [ucast (tw_clock w)]\<rparr>]"

definition tick :: "test_world \<Rightarrow> test_world" where
  "tick w = w\<lparr>tw_clock := tw_clock w + 1\<rparr>"

definition git_ops0 :: "test_world git_ops" where
  "git_ops0 = \<lparr>key_proc = (\<lambda>enctype salt w. ((0, Some key0), w)),
               decrypt_proc =
                 (\<lambda>key r w. ((0, r\<lparr>rep_enc_part2 := Some (enc0\<lparr>enc2_nonce := tw_clock w\<rparr>)\<rparr>), w)),
               krb5_obtain_padata =
                 (\<lambda>padata creds request w. ((0, request\<lparr>req_padata := padata\<rparr>, creds), w)),
               krb5_process_padata =
                 (\<lambda>request r key creds w. ((0, request, r, key, creds, 0), w))\<rparr>"

definition icc_ops0 :: "test_world icc_ops" where
  "icc_ops0 =
     \<lparr>krb5int_fast_process_error =
        (\<lambda>e w. ((0, Some e, Some (toy_padata (err_e_data e)), err_e_data e \<noteq> []), w)),
      krb5int_fast_process_response = (\<lambda>r w. ((0, r, None), w)),
      krb5int_fast_reply_key = (\<lambda>strengthen_key key w. ((0, key), w)),
      krb5int_fast_as_armor = (\<lambda>request w. ((0, request), w)),
      krb5_preauth_prepare_request = (\<lambda>request w. (request, w)),
      krb5int_fast_prep_req_body = (\<lambda>request w. ((0, Some [0x30]), w)),
      krb5int_fast_prep_req = (\<lambda>request body w. ((0, Some (toy_request request)), w)),
      krb5_do_preauth =
        (\<lambda>request body prev padata vars w.
           ((0, request, Some (timestamp_padata w), vars), tick w)),
      krb5_do_preauth_tryagain =
        (\<lambda>request body prev padata err vars w.
           ((0, request, Some (timestamp_padata w), vars), tick w)),
      gak_fct = (\<lambda>client enctype vars w. ((0, vars\<lparr>pv_as_key := key0\<rparr>), w)),
      krb5_kdc_rep_decrypt_proc = (\<lambda>key r w. ((0, r\<lparr>rep_enc_part2 := Some enc0\<rparr>), w)),
      krb5_clear_preauth_context_use_counts = (\<lambda>w. w),
      krb5_preauth_request_context_fini = (\<lambda>w. w)\<rparr>"

definition profile_with :: "string option \<Rightarrow> krb5_context_data" where
  "profile_with pref =
     \<lparr>ctx_magic = KV5M_CONTEXT,
      ctx_profile =
        (\<lambda>names nameval.
           if names = [KRB5_CONF_LIBDEFAULTS, KRB5_CONF_PREFERRED_PREAUTH_TYPES]
           then (case pref of None \<Rightarrow> (ENOENT, nameval) | Some s \<Rightarrow> (0, Some [s]))
           else (ENOENT, nameval)),
      ctx_library_options = 0,
      ctx_clockskew = 300\<rparr>"

definition request0 :: krb5_kdc_req where
  "request0 = \<lparr>req_kdc_options = 0, req_client = alice, req_server = None, req_from = 0,
               req_till = 0, req_rtime = 0, req_nonce = 7, req_ktype = [23],
               req_addresses = None, req_padata = None\<rparr>"

definition creds0 :: krb5_creds where
  "creds0 = \<lparr>cred_client = None, cred_server = None,
             cred_keyblock = \<lparr>kb_enctype = 0, kb_contents = []\<rparr>,
             cred_times = \<lparr>authtime = 0, starttime = 0, endtime = 0, renew_till = 0\<rparr>,
             cred_is_skey = False, cred_ticket_flags = 0, cred_addresses = [],
             cred_second_ticket = [], cred_ticket = []\<rparr>"

text \<open>A context as \<^verbatim>\<open>krb5_init_creds_init\<close> leaves it, for the client \<open>alice\<close>.\<close>

definition icc0 :: krb5_init_creds_context where
  "icc0 = \<lparr>icc_request = request0, icc_err_reply = None, icc_reply = None, icc_cred = creds0,
           icc_encoded_request_body = None, icc_encoded_previous_request = None,
           icc_preauth_to_use = None,
           icc_vars = \<lparr>pv_salt = \<lparr>salt_length = SALT_TYPE_AFS_LENGTH, salt_data = None\<rparr>,
                       pv_s2kparams = [], pv_etype = 0,
                       pv_as_key = \<lparr>kb_enctype = 0, kb_contents = []\<rparr>\<rparr>,
           icc_loopcount = 0, icc_request_time = 0, icc_start_time = 0,
           icc_tkt_life = 86400, icc_renew_life = 0, icc_in_tkt_service = None\<rparr>"

definition world0 :: "octets list \<Rightarrow> test_world" where
  "world0 replies = \<lparr>tw_clock = 1000, tw_sent = [], tw_replies = replies\<rparr>"

text \<open>The replies of the script: pre-authentication required (with a hint), and response too big.\<close>

definition preauth_required_reply :: octets where
  "preauth_required_reply = [0x7e, 25, 2]"

definition too_big_reply :: octets where
  "too_big_reply = [0x7e, 52]"

definition as_rep_reply :: octets where
  "as_rep_reply = [0x6b, 0]"

section \<open>Notions used in the statements\<close>

text \<open>
  The array after the entry at \<open>k\<close> has been moved to \<open>base\<close> and the entries from
  \<open>base\<close> to \<open>k - 1\<close> have moved up by one.
\<close>

definition bubble :: "'a list \<Rightarrow> nat \<Rightarrow> nat \<Rightarrow> 'a list" where
  "bubble xs k base = take base xs @ [xs ! k] @ take (k - base) (drop base xs) @ drop (Suc k) xs"

text \<open>
  The shape of a list \<open>R\<close> that the ordering produces from \<open>xs\<close>, started at \<open>base\<close>: the
  first \<open>base\<close> entries are untouched, up to some \<open>n\<close> follow entries of the types in
  \<open>named\<close>, and the rest is a subsequence of the old rest; \<open>R\<close> is a permutation of \<open>xs\<close>.
\<close>

definition sorted_shape ::
  "int set \<Rightarrow> krb5_pa_data list \<Rightarrow> nat \<Rightarrow> krb5_pa_data list \<Rightarrow> bool" where
  "sorted_shape named xs base R =
     (\<exists>n. base \<le> n \<and> n \<le> length xs \<and> length R = length xs \<and> take base R = take base xs
        \<and> sint ` pa_type ` set (drop base (take n R)) \<subseteq> named
        \<and> subseq (drop n R) (drop base xs) \<and> mset R = mset xs)"

text \<open>
  The ordering as the specification words it, to be compared with the code's: for each
  preferred type in turn, the first entry of that type among the entries not yet chosen
  goes next in the front; a type without such an entry is passed over. The result is the
  front and the entries that are left, in their original order.
\<close>

fun preferred_first ::
  "int list \<Rightarrow> krb5_pa_data list \<Rightarrow> krb5_pa_data list \<times> krb5_pa_data list" where
  "preferred_first [] xs = ([], xs)"
| "preferred_first (l # ls) xs =
     (case find (\<lambda>e. sint (pa_type e) = l) xs of
        None \<Rightarrow> preferred_first ls xs
      | Some e \<Rightarrow>
          (case preferred_first ls (remove1 e xs) of (front, rest) \<Rightarrow> (e # front, rest)))"

text \<open>
  The one rewrite of the client that the verifier sanctions: canonicalization was
  requested, and the requested server \<open>s\<close> and the server of the reply are TGS principals.
\<close>

definition canon_sanctioned ::
  "krb5_kdc_req \<Rightarrow> krb5_principal_data \<Rightarrow> krb5_enc_kdc_rep_part \<Rightarrow> bool" where
  "canon_sanctioned request s e =
     ((req_kdc_options request AND KDC_OPT_CANONICALIZE \<noteq> 0
       \<or> princ_type (req_client request) = KRB5_NT_ENTERPRISE_PRINCIPAL)
      \<and> IS_TGS_PRINC s \<and> IS_TGS_PRINC (enc2_server e))"

text \<open>Callbacks that fail and leave a trace in the world, and inputs for the verifier.\<close>

definition noisy_key_proc ::
  "krb5_int32 \<Rightarrow> octets \<Rightarrow> test_world \<Rightarrow> (krb5_error_code \<times> krb5_keyblock option) \<times> test_world"
  where
  "noisy_key_proc enctype salt w = ((1, None), tick w)"

definition noisy_decrypt_proc ::
  "krb5_keyblock option \<Rightarrow> krb5_kdc_rep \<Rightarrow> test_world
   \<Rightarrow> (krb5_error_code \<times> krb5_kdc_rep) \<times> test_world" where
  "noisy_decrypt_proc key r w = ((1, r\<lparr>rep_enc_part2 := None\<rparr>), tick w)"

definition request_for :: "krb5_principal_data \<Rightarrow> krb5_flags \<Rightarrow> krb5_kdc_req" where
  "request_for client options =
     request0\<lparr>req_client := client, req_server := Some krbtgt_EX, req_kdc_options := options\<rparr>"

definition rep1 :: krb5_kdc_rep where
  "rep1 = rep0\<lparr>rep_enc_part2 := Some enc0\<rparr>"

definition pa :: "krb5_int32 \<Rightarrow> krb5_pa_data" where
  "pa t = \<lparr>pa_type = t, pa_contents = []\<rparr>"

text \<open>
  The states of a run of the step interface: \<open>icc1\<close> after the first call, \<open>icc2\<close> after
  an AS-REP has completed the exchange, \<open>icc3\<close> after one more call, and \<open>icc1_again\<close>
  after a call on \<open>icc1\<close> with the error response-too-big.
\<close>

definition icc1 :: krb5_init_creds_context where
  "icc1 = icc0\<lparr>icc_request :=
                 request0\<lparr>req_server := Some krbtgt_EX, req_from := 1000,
                           req_padata := Some [\<lparr>pa_type = 2, pa_contents = [232]\<rparr>]\<rparr>,
               icc_encoded_request_body := Some [0x30],
               icc_encoded_previous_request := Some [0x6a, 7, 232],
               icc_loopcount := 1, icc_request_time := 1000\<rparr>"

definition world_at :: "krb5_timestamp \<Rightarrow> test_world" where
  "world_at t = \<lparr>tw_clock = t, tw_sent = [], tw_replies = []\<rparr>"

definition icc2 :: krb5_init_creds_context where
  "icc2 = icc1\<lparr>icc_reply := Some rep1,
               icc_cred := \<lparr>cred_client = Some alice, cred_server = Some krbtgt_EX,
                            cred_keyblock = key0, cred_times = times0, cred_is_skey = False,
                            cred_ticket_flags = 0, cred_addresses = [],
                            cred_second_ticket = [], cred_ticket = [9, 9]\<rparr>,
               icc_vars := \<lparr>pv_salt = \<lparr>salt_length = 7,
                                        salt_data = Some [69, 88, 97, 108, 105, 99, 101]\<rparr>,
                            pv_s2kparams = [], pv_etype = 23, pv_as_key = key0\<rparr>\<rparr>"

definition icc3 :: krb5_init_creds_context where
  "icc3 = icc2\<lparr>icc_request := (icc_request icc2)
                                 \<lparr>req_padata := Some [\<lparr>pa_type = 2, pa_contents = [234]\<rparr>]\<rparr>,
               icc_encoded_previous_request := Some [0x6a, 7, 234],
               icc_loopcount := 2\<rparr>"

definition icc1_again :: krb5_init_creds_context where
  "icc1_again = icc1\<lparr>icc_request := (icc_request icc1)
                                 \<lparr>req_padata := Some [\<lparr>pa_type = 2, pa_contents = [233]\<rparr>]\<rparr>,
               icc_encoded_previous_request := Some [0x6a, 7, 233],
               icc_loopcount := 2\<rparr>"

text \<open>The input of the all-in-one driver, and its local variables on entry to the loop.\<close>

definition creds_in :: krb5_creds where
  "creds_in = creds0\<lparr>cred_client := Some alice, cred_server := Some krbtgt_EX\<rparr>"

definition git_locals0 :: git_locals where
  "git_locals0 =
     \<lparr>gl_request = request0\<lparr>req_server := Some krbtgt_EX, req_nonce := 0,
                               req_ktype := get_in_tkt_enctypes, req_addresses := Some []\<rparr>,
      gl_creds = creds_in, gl_preauth_to_use = None, gl_as_reply = None,
      gl_decrypt_key = None, gl_time_now = 0, gl_use_master = False,
      gl_referral_count = 0, gl_referred_server = None\<rparr>"

text \<open>What a run of a driver shows: the code, the final loop count, the requests sent.\<close>

definition loop_outcome ::
  "((int \<times> git_locals \<times> test_world) iteration) option \<Rightarrow> (krb5_error_code \<times> int \<times> nat) option"
  where
  "loop_outcome r =
     (case r of
        Some (Goto_cleanup code (loopcount, l, w)) \<Rightarrow> Some (code, loopcount, length (tw_sent w))
      | Some (Break (loopcount, l, w)) \<Rightarrow> Some (0, loopcount, length (tw_sent w))
      | _ \<Rightarrow> None)"

definition get_outcome ::
  "(krb5_error_code \<times> krb5_init_creds_context \<times> bool \<times> test_world) option
   \<Rightarrow> (krb5_error_code \<times> int \<times> nat) option" where
  "get_outcome r =
     map_option (\<lambda>(code, ctx, use_master, w). (code, icc_loopcount ctx, length (tw_sent w))) r"

section \<open>Properties\<close>

subsection \<open>Saturating addition\<close>

lemma sint_MAX: "sint KRB5_INT32_MAX = 2147483647"
  by (simp add: KRB5_INT32_MAX_def)

lemma sint_MIN: "sint KRB5_INT32_MIN = - 2147483648"
  by (simp add: KRB5_INT32_MIN_def KRB5_INT32_MAX_def)

lemma sint32_bounds: "- 2147483648 \<le> sint (w :: krb5_int32) \<and> sint w \<le> 2147483647"
  using sint_range_size [of w] by (simp add: word_size)

lemma sint32_in_range:
  "- 2147483648 \<le> k \<Longrightarrow> k \<le> 2147483647 \<Longrightarrow> signed_take_bit (31::nat) (k::int) = k"
  by (rule signed_take_bit_int_eq_self) simp_all

lemma sint_MAX_minus: "0 < sint x \<Longrightarrow> sint (KRB5_INT32_MAX - x) = 2147483647 - sint x"
  using sint32_bounds [of x] by (simp add: sint_word_diff sint_MAX sint32_in_range)

lemma sint_MIN_minus: "sint x < 0 \<Longrightarrow> sint (KRB5_INT32_MIN - x) = - 2147483648 - sint x"
  using sint32_bounds [of x] by (simp add: sint_word_diff sint_MIN sint32_in_range)

lemma sint_add_in_range:
  "- 2147483648 \<le> sint x + sint y \<Longrightarrow> sint x + sint y \<le> 2147483647 \<Longrightarrow>
   sint ((x :: krb5_int32) + y) = sint x + sint y"
  by (simp add: sint_word_add sint32_in_range)

lemma addint32_value:
  "sint (krb5int_addint32 x y) =
     (if 0 < sint x \<and> 2147483647 - sint x < sint y then 2147483647
      else if sint x < 0 \<and> sint y < - 2147483648 - sint x then - 2147483648
      else sint x + sint y)"
proof -
  consider (hi) "0 < sint x" "2147483647 - sint x < sint y"
    | (lo) "sint x < 0" "sint y < - 2147483648 - sint x"
    | (mid) "\<not> (0 < sint x \<and> 2147483647 - sint x < sint y)"
            "\<not> (sint x < 0 \<and> sint y < - 2147483648 - sint x)"
    by linarith
  then show ?thesis
  proof cases
    case hi
    then show ?thesis
      by (simp add: krb5int_addint32_def word_sless_alt sint_MAX_minus sint_MAX)
  next
    case lo
    then show ?thesis
      by (simp add: krb5int_addint32_def word_sless_alt sint_MIN_minus sint_MIN)
  next
    case mid
    have cond1: "(0 <s x \<and> (KRB5_INT32_MAX - x) <s y) = False"
      using mid(1) by (auto simp: word_sless_alt sint_MAX_minus)
    have cond2: "(x <s 0 \<and> y <s (KRB5_INT32_MIN - x)) = False"
      using mid(2) by (auto simp: word_sless_alt sint_MIN_minus)
    have m1: "(0 < sint x \<and> 2147483647 - sint x < sint y) = False"
      using mid(1) by simp
    have m2: "(sint x < 0 \<and> sint y < - 2147483648 - sint x) = False"
      using mid(2) by simp
    have "- 2147483648 \<le> sint x + sint y \<and> sint x + sint y \<le> 2147483647"
      using mid sint32_bounds [of x] sint32_bounds [of y] by linarith
    then have "sint (x + y) = sint x + sint y"
      by (simp add: sint_add_in_range)
    then show ?thesis
      unfolding krb5int_addint32_def cond1 cond2 m1 m2 by (simp only: if_False)
  qed
qed

text \<open>
  Claim C6. For all signed 32-bit \<open>x\<close> and \<open>y\<close>, \<open>krb5int_addint32 x y\<close> is
  \<open>KRB5_INT32_MAX\<close> if \<open>x > 0\<close> and \<open>y > KRB5_INT32_MAX - x\<close>, is \<open>KRB5_INT32_MIN\<close> if
  \<open>x < 0\<close> and \<open>y < KRB5_INT32_MIN - x\<close>, and is \<open>x + y\<close> otherwise; the result lies between
  \<open>KRB5_INT32_MIN\<close> and \<open>KRB5_INT32_MAX\<close> and is the mathematical sum whenever that sum
  lies in this range. The values are read as integers with \<open>sint\<close>.
\<close>

theorem C6_saturating_add:
  "sint (krb5int_addint32 x y) =
     (if 0 < sint x \<and> sint KRB5_INT32_MAX - sint x < sint y then sint KRB5_INT32_MAX
      else if sint x < 0 \<and> sint y < sint KRB5_INT32_MIN - sint x then sint KRB5_INT32_MIN
      else sint x + sint y)
   \<and> sint KRB5_INT32_MIN \<le> sint (krb5int_addint32 x y)
   \<and> sint (krb5int_addint32 x y) \<le> sint KRB5_INT32_MAX
   \<and> (sint KRB5_INT32_MIN \<le> sint x + sint y \<and> sint x + sint y \<le> sint KRB5_INT32_MAX
        \<longrightarrow> sint (krb5int_addint32 x y) = sint x + sint y)"
  using sint32_bounds [of "krb5int_addint32 x y"] sint32_bounds [of x] sint32_bounds [of y]
  by (simp add: addint32_value sint_MAX sint_MIN)

theorem C6_witness:
  "sint (krb5int_addint32 2147483647 1) = 2147483647
   \<and> sint (krb5int_addint32 (- 2147483648) (- 1)) = - 2147483648
   \<and> sint (krb5int_addint32 1000 (- 1)) = 999"
  using C6_saturating_add [of 2147483647 1] C6_saturating_add [of "- 2147483648" "- 1"]
    C6_saturating_add [of 1000 "- 1"]
  by (simp add: sint_MAX sint_MIN)

subsection \<open>Ordering pre-authentication data\<close>


lemma pa_shift_length: "length (pa_shift xs j base) = length xs"
proof (induction xs j base rule: pa_shift.induct)
  case (1 padata j base)
  then show ?case
    by (subst pa_shift.simps) simp
qed

lemma pa_shift_nth:
  "j < length xs \<Longrightarrow> k < length xs \<Longrightarrow>
   pa_shift xs j base ! k = (if base < k \<and> k \<le> j then xs ! (k - 1) else xs ! k)"
proof (induction xs j base arbitrary: k rule: pa_shift.induct)
  case (1 padata j base)
  show ?case
  proof (cases "j > base")
    case True
    have "pa_shift padata j base ! k = pa_shift (padata[j := padata ! (j - 1)]) (j - 1) base ! k"
      by (subst pa_shift.simps) (simp add: True)
    also have "\<dots> = (if base < k \<and> k \<le> j - 1 then (padata[j := padata ! (j - 1)]) ! (k - 1)
                      else (padata[j := padata ! (j - 1)]) ! k)"
      using "1.IH" [OF True, of k] "1.prems" by simp
    also have "\<dots> = (if base < k \<and> k \<le> j then padata ! (k - 1) else padata ! k)"
      using True "1.prems" by (auto simp: nth_list_update)
    finally show ?thesis .
  next
    case False
    then show ?thesis
      by (subst pa_shift.simps) auto
  qed
qed

lemma bubble_nth:
  assumes "base \<le> k" "k < length xs" "i < length xs"
  shows "bubble xs k base ! i =
    (if i < base then xs ! i else if i = base then xs ! k
     else if i \<le> k then xs ! (i - 1) else xs ! i)"
proof -
  consider (a) "i < base" | (b) "i = base" | (c) "base < i" "i \<le> k" | (d) "k < i"
    using assms by linarith
  then show ?thesis
  proof cases
    case a
    with assms show ?thesis by (simp add: bubble_def nth_append)
  next
    case b
    with assms show ?thesis by (simp add: bubble_def nth_append)
  next
    case c
    define d where "d = i - Suc base"
    have d: "i = Suc (base + d)" "d < k - base"
      using c by (simp_all add: d_def)
    with assms show ?thesis by (auto simp: bubble_def nth_append)
  next
    case d
    define e where "e = i - Suc k"
    have e: "i = Suc (k + e)"
      using d by (simp add: e_def)
    with assms show ?thesis by (auto simp: bubble_def nth_append)
  qed
qed

lemma pa_shift_bubble:
  assumes "base \<le> k" "k < length xs"
  shows "(pa_shift xs k base)[base := xs ! k] = bubble xs k base"
proof (rule nth_equalityI)
  show "length ((pa_shift xs k base)[base := xs ! k]) = length (bubble xs k base)"
    using assms by (simp add: pa_shift_length bubble_def)
next
  fix i assume "i < length ((pa_shift xs k base)[base := xs ! k])"
  then have i: "i < length xs" by (simp add: pa_shift_length)
  show "(pa_shift xs k base)[base := xs ! k] ! i = bubble xs k base ! i"
    using assms i
    by (simp add: nth_list_update pa_shift_length pa_shift_nth bubble_nth)
qed

lemma take_split: "base \<le> k \<Longrightarrow> take k xs = take base xs @ take (k - base) (drop base xs)"
  by (metis le_add_diff_inverse take_add)

lemma mset_bubble:
  assumes "base \<le> k" "k < length xs"
  shows "mset (bubble xs k base) = mset xs"
proof -
  have "mset xs = mset (take k xs @ xs ! k # drop (Suc k) xs)"
    using assms(2) by (metis id_take_nth_drop)
  also have "\<dots> = mset (bubble xs k base)"
    by (simp add: bubble_def take_split [OF assms(1)])
  finally show ?thesis by simp
qed

lemma pa_search_cases:
  "base \<le> i \<Longrightarrow>
   pa_search xs i base l = (xs, base)
   \<or> (\<exists>k. i \<le> k \<and> k < length xs \<and> sint (pa_type (xs ! k)) = l
          \<and> pa_search xs i base l = (bubble xs k base, Suc base))"
proof (induction xs i base l rule: pa_search.induct)
  case (1 padata i base l)
  show ?case
  proof (cases "i < length padata")
    case False
    then show ?thesis by (subst pa_search.simps) simp
  next
    case True
    show ?thesis
    proof (cases "sint (pa_type (padata ! i)) = l")
      case hit: True
      have "pa_search padata i base l = (bubble padata i base, Suc base)"
        using True hit "1.prems"
        by (subst pa_search.simps) (simp add: pa_shift_bubble)
      with True hit show ?thesis by blast
    next
      case miss: False
      have eq: "pa_search padata i base l = pa_search padata (i + 1) base l"
        using True miss by (subst pa_search.simps) simp
      from "1.IH" [OF True miss] "1.prems"
      have "pa_search padata (i + 1) base l = (padata, base)
        \<or> (\<exists>k. i + 1 \<le> k \<and> k < length padata \<and> sint (pa_type (padata ! k)) = l
              \<and> pa_search padata (i + 1) base l = (bubble padata k base, Suc base))"
        by simp
      then show ?thesis
        unfolding eq by (metis add_leD1)
    qed
  qed
qed

lemma bubble_take: "base \<le> k \<Longrightarrow> k < length xs \<Longrightarrow> take base (bubble xs k base) = take base xs"
  by (simp add: bubble_def)

lemma bubble_drop:
  "base \<le> k \<Longrightarrow> k < length xs \<Longrightarrow>
   drop (Suc base) (bubble xs k base) = take (k - base) (drop base xs) @ drop (Suc k) xs"
  by (simp add: bubble_def)

lemma bubble_at: "base \<le> k \<Longrightarrow> k < length xs \<Longrightarrow> bubble xs k base ! base = xs ! k"
  by (simp add: bubble_def nth_append)

lemma bubble_length: "base \<le> k \<Longrightarrow> k < length xs \<Longrightarrow> length (bubble xs k base) = length xs"
  by (simp add: bubble_def)

lemma subseq_bubble_rest:
  assumes "base \<le> k" "k < length xs"
  shows "subseq (take (k - base) (drop base xs) @ drop (Suc k) xs) (drop base xs)"
proof -
  have "drop base xs = take (k - base) (drop base xs) @ drop (k - base) (drop base xs)"
    by (rule append_take_drop_id [symmetric])
  also have "drop (k - base) (drop base xs) = drop k xs"
    using assms by simp
  also have "drop k xs = xs ! k # drop (Suc k) xs"
    using assms by (simp add: Cons_nth_drop_Suc)
  finally have "drop base xs = take (k - base) (drop base xs) @ xs ! k # drop (Suc k) xs" .
  moreover have "subseq (take (k - base) (drop base xs) @ drop (Suc k) xs)
      (take (k - base) (drop base xs) @ xs ! k # drop (Suc k) xs)"
    by (auto simp: subseq_append' intro: list_emb_Cons)
  ultimately show ?thesis by simp
qed

lemma sort_loop_end: "dropWhile (\<lambda>c. c = CHR '','' \<or> c = CHR '' '') p = [] \<Longrightarrow> sort_loop p xs base = xs"
  by (subst sort_loop.simps, subst sort_loop.simps) (simp del: dropWhile_eq_Nil_conv)

lemma pref_types_end: "dropWhile (\<lambda>c. c = CHR '','' \<or> c = CHR '' '') p = [] \<Longrightarrow> pref_types p = []"
  by (subst pref_types.simps, subst pref_types.simps) (simp del: dropWhile_eq_Nil_conv)

lemma sort_loop_stop:
  assumes "dropWhile (\<lambda>c. c = CHR '','' \<or> c = CHR '' '') p = p1" "p1 \<noteq> []"
    "length p1 \<le> length (snd (strtol p1))"
  shows "sort_loop p xs base = xs"
proof -
  have "p \<noteq> []" using assms by auto
  then show ?thesis
    using assms by (subst sort_loop.simps) (simp add: case_prod_beta del: dropWhile_eq_Nil_conv)
qed

lemma pref_types_stop:
  assumes "dropWhile (\<lambda>c. c = CHR '','' \<or> c = CHR '' '') p = p1" "p1 \<noteq> []"
    "length p1 \<le> length (snd (strtol p1))"
  shows "pref_types p = []"
proof -
  have "p \<noteq> []" using assms by auto
  then show ?thesis
    using assms by (subst pref_types.simps) (simp add: case_prod_beta del: dropWhile_eq_Nil_conv)
qed

lemma sort_loop_step:
  assumes "dropWhile (\<lambda>c. c = CHR '','' \<or> c = CHR '' '') p = p1" "p1 \<noteq> []"
    "strtol p1 = (l, q)" "length q < length p1" "pa_search xs base base l = (xs', base')"
  shows "sort_loop p xs base = sort_loop q xs' base'"
proof -
  have "p \<noteq> []" using assms by auto
  then show ?thesis
    using assms by (subst sort_loop.simps) (simp del: dropWhile_eq_Nil_conv)
qed

lemma pref_types_step:
  assumes "dropWhile (\<lambda>c. c = CHR '','' \<or> c = CHR '' '') p = p1" "p1 \<noteq> []"
    "strtol p1 = (l, q)" "length q < length p1"
  shows "pref_types p = l # pref_types q"
proof -
  have "p \<noteq> []" using assms by auto
  then show ?thesis
    using assms by (subst pref_types.simps) (simp del: dropWhile_eq_Nil_conv)
qed

lemma sorted_shape_refl: "base \<le> length xs \<Longrightarrow> sorted_shape named xs base xs"
  unfolding sorted_shape_def by (rule exI [of _ base]) simp

lemma sorted_shape_mono: "sorted_shape A xs base R \<Longrightarrow> A \<subseteq> B \<Longrightarrow> sorted_shape B xs base R"
  unfolding sorted_shape_def by blast

lemma sorted_shape_bubble:
  assumes k: "base \<le> k" "k < length xs" "sint (pa_type (xs ! k)) = l"
    and R: "sorted_shape named (bubble xs k base) (Suc base) R"
  shows "sorted_shape (insert l named) xs base R"
proof -
  let ?b = "bubble xs k base"
  from R obtain n where n: "Suc base \<le> n" "n \<le> length ?b" "length R = length ?b"
    "take (Suc base) R = take (Suc base) ?b"
    "sint ` pa_type ` set (drop (Suc base) (take n R)) \<subseteq> named"
    "subseq (drop n R) (drop (Suc base) ?b)" "mset R = mset ?b"
    unfolding sorted_shape_def by blast
  have len: "length ?b = length xs" using k by (simp add: bubble_length)
  have t1: "take base R = take base xs"
  proof -
    have "take base R = take base (take (Suc base) R)" by (simp add: min_def)
    also have "\<dots> = take base (take (Suc base) ?b)" by (simp only: n(4))
    also have "\<dots> = take base ?b" by (simp add: min_def)
    finally show ?thesis using k by (simp add: bubble_take)
  qed
  have Rb: "R ! base = xs ! k"
  proof -
    have "R ! base = take (Suc base) R ! base" by simp
    also have "\<dots> = take (Suc base) ?b ! base" by (simp only: n(4))
    also have "\<dots> = ?b ! base" by simp
    finally show ?thesis using k by (simp add: bubble_at)
  qed
  have blt: "base < length R" using n len k by simp
  have "drop base (take n R) = R ! base # drop (Suc base) (take n R)"
    using blt n by (simp add: Cons_nth_drop_Suc [symmetric])
  then have t2: "sint ` pa_type ` set (drop base (take n R)) \<subseteq> insert l named"
    using n(5) Rb k(3) by auto
  have "subseq (drop (Suc base) ?b) (drop base xs)"
    using k by (simp add: bubble_drop subseq_bubble_rest)
  with n(6) have t3: "subseq (drop n R) (drop base xs)"
    using subseq_order.order_trans by blast
  have t4: "mset R = mset xs" using n(7) k by (simp add: mset_bubble)
  show ?thesis
    unfolding sorted_shape_def
    using n(1,2,3) len t1 t2 t3 t4 by (intro exI [of _ n]) simp
qed

lemma sort_loop_shape:
  "base \<le> length xs \<Longrightarrow> sorted_shape (set (pref_types p)) xs base (sort_loop p xs base)"
proof (induction p xs base rule: sort_loop.induct)
  case (1 p padata base)
  let ?p1 = "dropWhile (\<lambda>c. c = CHR '','' \<or> c = CHR '' '') p"
  show ?case
  proof (cases "?p1 = []")
    case True
    then show ?thesis
      using "1.prems" by (simp only: sort_loop_end sorted_shape_refl)
  next
    case False
    then have pne: "p \<noteq> []" by auto
    obtain l q where lq: "strtol ?p1 = (l, q)" by (cases "strtol ?p1")
    show ?thesis
    proof (cases "length q < length ?p1")
      case stop: False
      then have "sort_loop p padata base = padata"
        using False lq by (intro sort_loop_stop [where ?p1.0 = ?p1]) simp_all
      then show ?thesis using "1.prems" by (simp only: sorted_shape_refl)
    next
      case True
      obtain xs' base' where ps: "pa_search padata base base l = (xs', base')"
        by (cases "pa_search padata base base l")
      have sl: "sort_loop p padata base = sort_loop q xs' base'"
        using False lq True ps by (intro sort_loop_step [where ?p1.0 = ?p1]) simp_all
      have pt: "pref_types p = l # pref_types q"
        using False lq True by (intro pref_types_step [where ?p1.0 = ?p1]) simp_all
      have IH: "base' \<le> length xs' \<Longrightarrow>
          sorted_shape (set (pref_types q)) xs' base' (sort_loop q xs' base')"
        using "1.IH"(1) [OF pne refl False lq [symmetric] True ps [symmetric]] .
      from pa_search_cases [of base base padata l] ps
      consider (miss) "xs' = padata" "base' = base"
        | (hit) k where "base \<le> k" "k < length padata" "sint (pa_type (padata ! k)) = l"
            "xs' = bubble padata k base" "base' = Suc base"
        by auto
      then show ?thesis
      proof cases
        case miss
        with IH "1.prems" have "sorted_shape (set (pref_types q)) padata base (sort_loop q padata base)"
          by simp
        then show ?thesis
          unfolding sl miss pt by (rule sorted_shape_mono) auto
      next
        case hit
        have "Suc base \<le> length (bubble padata k base)"
          using hit by (simp add: bubble_length)
        with IH hit have "sorted_shape (set (pref_types q)) (bubble padata k base) (Suc base)
            (sort_loop q (bubble padata k base) (Suc base))"
          by simp
        then have "sorted_shape (insert l (set (pref_types q))) padata base
            (sort_loop q (bubble padata k base) (Suc base))"
          using hit by (intro sorted_shape_bubble) simp_all
        then show ?thesis
          unfolding sl hit pt by simp
      qed
    qed
  qed
qed

subsection \<open>The reply classifiers\<close>

lemma split_low_bit: "(x :: 'a::len word) = (x AND NOT 1) OR (x AND 1)"
  by (rule bit_eqI) (auto simp: bit_simps)

lemma low_bit_cases: "(x :: 'a::len word) AND 1 = 0 \<or> x AND 1 = 1"
  unfolding and_one_eq
  using odd_iff_mod_2_eq_one [of x] even_iff_mod_2_eq_zero [of x] by blast

lemma and_not1_8: "((x :: 8 word) AND NOT 1 = 10) = (x = 10 \<or> x = 11)"
proof
  assume a: "x AND NOT 1 = 10"
  have "x = 10 OR (x AND 1)"
    using split_low_bit [of x] a by simp
  with low_bit_cases [of x] show "x = 10 \<or> x = 11"
    by auto
next
  assume "x = 10 \<or> x = 11"
  then show "x AND NOT 1 = 10" by auto
qed

lemma and_not1_32: "((x :: 32 word) AND NOT 1 = 10) = (x = 10 \<or> x = 11)"
proof
  assume a: "x AND NOT 1 = 10"
  have "x = 10 OR (x AND 1)"
    using split_low_bit [of x] a by simp
  with low_bit_cases [of x] show "x = 10 \<or> x = 11"
    by auto
next
  assume "x = 10 \<or> x = 11"
  then show "x AND NOT 1 = 10" by auto
qed

lemma ucast_8_32_eq: "((ucast (c :: 8 word) :: 32 word) = ucast d) = (c = d)"
proof
  assume "(ucast c :: 32 word) = ucast d"
  then have "(ucast (ucast c :: 32 word) :: 8 word) = ucast (ucast d :: 32 word)" by simp
  then show "c = d" by (simp add: ucast_up_ucast_id is_up)
qed simp

lemma scast_8_32_eq: "((scast (c :: 8 word) :: 32 word) = scast d) = (c = d)"
proof
  assume "(scast c :: 32 word) = scast d"
  then have "(scast (scast c :: 32 word) :: 8 word) = scast (scast d :: 32 word)" by simp
  then show "c = d" by (simp add: scast_up_scast_id is_up)
qed simp

lemma t_switch_byte:
  "(char_to_uint lib c AND NOT 1 = V4_AUTH_MSG_ERR_REPLY) = (c AND NOT 1 = 10)"
proof -
  have u: "((ucast c :: 32 word) = 10) = (c = 10)" "((ucast c :: 32 word) = 11) = (c = 11)"
    using ucast_8_32_eq [of c 10] ucast_8_32_eq [of c 11] by simp_all
  have s: "((scast c :: 32 word) = 10) = (c = 10)" "((scast c :: 32 word) = 11) = (c = 11)"
    using scast_8_32_eq [of c 10] scast_8_32_eq [of c 11] by simp_all
  have v: "V4_AUTH_MSG_ERR_REPLY = 10"
    by (simp add: V4_AUTH_MSG_ERR_REPLY_def)
  show ?thesis
    by (cases "char_signed lib")
      (simp_all only: char_to_uint_def v if_True if_False and_not1_8 and_not1_32 u s)
qed

lemma codes_distinct:
  "KRB5KRB_AP_ERR_V4_REPLY \<noteq> KRB5KRB_AP_ERR_MSG_TYPE"
  "KRB5_KDCREP_MODIFIED \<noteq> 0"
  by (simp_all add: KRB5KRB_AP_ERR_V4_REPLY_def KRB5KRB_AP_ERR_MSG_TYPE_def
      KRB5_KDCREP_MODIFIED_def ERROR_TABLE_BASE_krb5_def)

lemma validate_reply_other:
  assumes "\<not> krb5_is_krb_error lib reply" "\<not> krb5_is_as_rep lib reply" "2 \<le> length reply"
  shows "init_creds_validate_reply lib ctx reply =
     Some (if reply ! 0 = 4 \<and> reply ! 1 AND NOT 1 = 10
           then KRB5KRB_AP_ERR_V4_REPLY else KRB5KRB_AP_ERR_MSG_TYPE,
           ctx\<lparr>icc_err_reply := None, icc_reply := None\<rparr>)"
proof -
  have tb: "(char_to_uint lib (reply ! 1) AND NOT 1 = V4_AUTH_MSG_ERR_REPLY)
      = (reply ! 1 AND NOT 1 = 10)"
    by (rule t_switch_byte)
  have ne: "reply \<noteq> []" using assms(3) by auto
  show ?thesis
    unfolding init_creds_validate_reply_def
    using assms tb ne by (auto simp: Let_def V4_KRB_PROT_VERSION_def)
qed

lemma send_again_other:
  assumes "krb5_sendto_kdc sys packet realm um tcp w = ((0, reply, um'), w')"
    and "\<not> krb5_is_krb_error lib reply" "\<not> krb5_is_as_rep lib reply" "2 \<le> length reply"
  shows "send_again lib sys packet realm k4 um tcp w =
     Some (if reply ! 1 AND NOT 1 = 10 \<and> (reply ! 0 = 4 \<or> reply ! 0 = k4)
           then KRB5KRB_AP_ERR_V4_REPLY else KRB5KRB_AP_ERR_MSG_TYPE,
           None, None, um', w')"
proof -
  have tb: "(char_to_uint lib (reply ! 1) AND NOT 1 = V4_AUTH_MSG_ERR_REPLY)
      = (reply ! 1 AND NOT 1 = 10)"
    by (rule t_switch_byte)
  show ?thesis
    using assms tb
    by (subst send_again.simps) (auto simp: V4_KRB_PROT_VERSION_def Let_def)
qed

text \<open>
  Claim C5, amended. For every reply of at least two bytes that is neither a KRB-ERROR
  nor an AS-REP, the classifier of the step interface returns \<open>KRB5KRB_AP_ERR_V4_REPLY\<close>
  exactly when \<open>reply[0] = 4\<close> and \<open>reply[1] & ~1 = 5 << 1\<close>, and the classifier of the
  all-in-one driver exactly when \<open>reply[1] & ~1 = 5 << 1\<close> and \<open>reply[0]\<close> is 4 or the
  first byte of the request that was sent; in every other such case each returns
  \<open>KRB5KRB_AP_ERR_MSG_TYPE\<close>, a different code.
\<close>

theorem C5_reply_classifiers:
  assumes "\<not> krb5_is_krb_error lib reply" and "\<not> krb5_is_as_rep lib reply"
    and "2 \<le> length reply"
  shows "map_option fst (init_creds_validate_reply lib ctx reply) =
           Some (if reply ! 0 = 4 \<and> reply ! 1 AND NOT 1 = push_bit 1 5
                 then KRB5KRB_AP_ERR_V4_REPLY else KRB5KRB_AP_ERR_MSG_TYPE)
       \<and> (packet \<noteq> [] \<and> krb5_sendto_kdc sys packet realm um False w = ((0, reply, um'), w')
            \<longrightarrow> map_option fst (send_as_request lib sys packet realm um w) =
                  Some (if (reply ! 0 = 4 \<or> reply ! 0 = packet ! 0)
                           \<and> reply ! 1 AND NOT 1 = push_bit 1 5
                        then KRB5KRB_AP_ERR_V4_REPLY else KRB5KRB_AP_ERR_MSG_TYPE))
       \<and> KRB5KRB_AP_ERR_V4_REPLY \<noteq> KRB5KRB_AP_ERR_MSG_TYPE"
proof -
  have p: "(push_bit 1 5 :: 8 word) = 10" by simp
  have a: "map_option fst (init_creds_validate_reply lib ctx reply) =
           Some (if reply ! 0 = 4 \<and> reply ! 1 AND NOT 1 = push_bit 1 5
                 then KRB5KRB_AP_ERR_V4_REPLY else KRB5KRB_AP_ERR_MSG_TYPE)"
    unfolding p by (simp only: validate_reply_other [OF assms] option.map fst_conv)
  have b: "map_option fst (send_as_request lib sys packet realm um w) =
                  Some (if (reply ! 0 = 4 \<or> reply ! 0 = packet ! 0)
                           \<and> reply ! 1 AND NOT 1 = push_bit 1 5
                        then KRB5KRB_AP_ERR_V4_REPLY else KRB5KRB_AP_ERR_MSG_TYPE)"
    if pne: "packet \<noteq> []"
      and snd: "krb5_sendto_kdc sys packet realm um False w = ((0, reply, um'), w')"
  proof -
    obtain k rest where pk: "packet = k # rest" using pne by (cases packet) auto
    have "send_as_request lib sys packet realm um w = send_again lib sys packet realm k um False w"
      by (simp add: send_as_request_def pk)
    then show ?thesis
      unfolding p using send_again_other [OF snd assms, of k] pk by auto
  qed
  from a b codes_distinct(1) show ?thesis by blast
qed

theorem C5_witness:
  "map_option fst (init_creds_validate_reply lib0 icc0 [4, 11]) = Some KRB5KRB_AP_ERR_V4_REPLY
   \<and> map_option fst (init_creds_validate_reply lib0 icc0 [0x6a, 10]) = Some KRB5KRB_AP_ERR_MSG_TYPE
   \<and> map_option fst (send_as_request lib0 sys0 [0x6a, 7] ''EX'' False (world0 [[4, 10]]))
       = Some KRB5KRB_AP_ERR_V4_REPLY
   \<and> map_option fst (send_as_request lib0 sys0 [0x6a, 7] ''EX'' False (world0 [[5, 10]]))
       = Some KRB5KRB_AP_ERR_MSG_TYPE"
proof -
  have s: "krb5_sendto_kdc sys0 [0x6a, 7] ''EX'' False False (world0 [r])
      = ((0, r, False), \<lparr>tw_clock = 1000, tw_sent = [[0x6a, 7]], tw_replies = []\<rparr>)" for r
    by (simp add: sys0_def world0_def)
  have 1: "map_option fst (init_creds_validate_reply lib0 icc0 [4, 11]) = Some KRB5KRB_AP_ERR_V4_REPLY"
    using C5_reply_classifiers [of lib0 "[4, 11]" icc0 "[]"] by (simp add: lib0_def)
  have 2: "map_option fst (init_creds_validate_reply lib0 icc0 [0x6a, 10]) = Some KRB5KRB_AP_ERR_MSG_TYPE"
    using C5_reply_classifiers [of lib0 "[0x6a, 10]" icc0 "[]"] by (simp add: lib0_def)
  have 3: "map_option fst (send_as_request lib0 sys0 [0x6a, 7] ''EX'' False (world0 [[4, 10]]))
       = Some KRB5KRB_AP_ERR_V4_REPLY"
    using C5_reply_classifiers [of lib0 "[4, 10]" icc0 "[0x6a, 7]" sys0 "''EX''" False
        "world0 [[4, 10]]" False] s [of "[4, 10]"]
    by (simp add: lib0_def)
  have 4: "map_option fst (send_as_request lib0 sys0 [0x6a, 7] ''EX'' False (world0 [[5, 10]]))
       = Some KRB5KRB_AP_ERR_MSG_TYPE"
    using C5_reply_classifiers [of lib0 "[5, 10]" icc0 "[0x6a, 7]" sys0 "''EX''" False
        "world0 [[5, 10]]" False] s [of "[5, 10]"]
    by (simp add: lib0_def)
  from 1 2 3 4 show ?thesis by blast
qed

text \<open>
  The claim as stated fails for the all-in-one driver: a reply that starts with the
  first byte of the request, not with 4, is reported as a version 4 reply.
\<close>

theorem C5_counterexample:
  "\<not> krb5_is_krb_error lib0 [0x6a, 10] \<and> \<not> krb5_is_as_rep lib0 [0x6a, 10]
   \<and> [0x6a, 10 :: 8 word] ! 0 \<noteq> 4
   \<and> map_option fst (send_as_request lib0 sys0 [0x6a, 7] ''EX'' False (world0 [[0x6a, 10]]))
       = Some KRB5KRB_AP_ERR_V4_REPLY"
  by (simp add: send_as_request_def send_again.simps lib0_def sys0_def world0_def
      char_to_uint_def V4_AUTH_MSG_ERR_REPLY_def V4_KRB_PROT_VERSION_def)

subsection \<open>The reply verifier\<close>

lemma verify_as_reply_changed_client:
  assumes e: "rep_enc_part2 as_reply = Some e" and s: "req_server request = Some s"
    and differs: "\<not> krb5_principal_compare lib (rep_client as_reply) (req_client request)"
  shows "\<exists>code as_reply' w'.
           verify_as_reply lib sys context time_now request as_reply w = Some (code, as_reply', w')
           \<and> (\<not> canon_sanctioned request s e \<longrightarrow> code = KRB5_KDCREP_MODIFIED)"
proof (cases "canon_sanctioned request s e")
  case True
  then show ?thesis
    unfolding verify_as_reply_def canon_sanctioned_def
    using e s by (auto simp: Let_def split: prod.splits)
next
  case False
  then have "verify_as_reply lib sys context time_now request as_reply w
      = Some (KRB5_KDCREP_MODIFIED,
              as_reply\<lparr>rep_enc_part2 := Some (if starttime (enc2_times e) = 0
                   then e\<lparr>enc2_times := (enc2_times e)\<lparr>starttime := authtime (enc2_times e)\<rparr>\<rparr>
                   else e)\<rparr>, w)"
    unfolding verify_as_reply_def canon_sanctioned_def
    using e s differs by (auto simp: Let_def)
  then show ?thesis by blast
qed

text \<open>
  Claim C2. For every request with a server and every decrypted AS-REP whose client
  differs from the requested client, \<open>verify_as_reply\<close> returns; it returns 0 only if
  canonicalization was requested (the \<open>CANONICALIZE\<close> option or an enterprise client)
  and both the requested server and the server of the reply are TGS principals, and in
  every other case it returns \<open>KRB5_KDCREP_MODIFIED\<close>.
\<close>

theorem C2_client_rewrite_only_when_sanctioned:
  assumes "rep_enc_part2 as_reply = Some e" and "req_server request = Some s"
    and "\<not> krb5_principal_compare lib (rep_client as_reply) (req_client request)"
  shows "\<exists>code as_reply' w'.
           verify_as_reply lib sys context time_now request as_reply w = Some (code, as_reply', w')
           \<and> (code = 0 \<longrightarrow>
                 (req_kdc_options request AND KDC_OPT_CANONICALIZE \<noteq> 0
                  \<or> princ_type (req_client request) = KRB5_NT_ENTERPRISE_PRINCIPAL)
                 \<and> IS_TGS_PRINC s \<and> IS_TGS_PRINC (enc2_server e))
           \<and> (\<not> ((req_kdc_options request AND KDC_OPT_CANONICALIZE \<noteq> 0
                    \<or> princ_type (req_client request) = KRB5_NT_ENTERPRISE_PRINCIPAL)
                   \<and> IS_TGS_PRINC s \<and> IS_TGS_PRINC (enc2_server e))
                \<longrightarrow> code = KRB5_KDCREP_MODIFIED)"
proof -
  from verify_as_reply_changed_client [OF assms, of sys "context" time_now w]
  obtain code as_reply' w' where
    v: "verify_as_reply lib sys context time_now request as_reply w = Some (code, as_reply', w')"
    and m: "\<not> canon_sanctioned request s e \<longrightarrow> code = KRB5_KDCREP_MODIFIED"
    by blast
  from m codes_distinct(2) have "code = 0 \<longrightarrow> canon_sanctioned request s e"
    by auto
  with v m show ?thesis
    unfolding canon_sanctioned_def by blast
qed

lemma verify_not_canon:
  "verify_as_reply lib0 sys0 (profile_with None) 1000 (request_for Alice 0) rep1 (world0 [])
   = Some (KRB5_KDCREP_MODIFIED, rep1, world0 [])"
  by (simp add: verify_as_reply_def request_for_def rep1_def rep0_def enc0_def times0_def
      request0_def lib0_def Alice_def alice_def krbtgt_EX_def KDC_OPT_CANONICALIZE_def
      KRB5_NT_ENTERPRISE_PRINCIPAL_def Let_def)

lemma verify_canon:
  "verify_as_reply lib0 sys0 (profile_with None) 1000
     (request_for Alice KDC_OPT_CANONICALIZE) rep1 (world0 [])
   = Some (0, rep1, world0 [])"
  by (simp add: verify_as_reply_def request_for_def rep1_def rep0_def enc0_def times0_def
      request0_def lib0_def Alice_def alice_def krbtgt_EX_def KDC_OPT_CANONICALIZE_def
      KRB5_NT_ENTERPRISE_PRINCIPAL_def Let_def IS_TGS_PRINC_def KRB5_TGS_NAME_def
      KDC_OPT_POSTDATED_def KDC_OPT_RENEWABLE_def KDC_OPT_RENEWABLE_OK_def
      profile_with_def KRB5_LIBOPT_SYNC_KDCTIME_def)

theorem C2_witness:
  "rep_enc_part2 rep1 = Some enc0
   \<and> req_server (request_for Alice 0) = Some krbtgt_EX
   \<and> \<not> krb5_principal_compare lib0 (rep_client rep1) (req_client (request_for Alice 0))
   \<and> verify_as_reply lib0 sys0 (profile_with None) 1000 (request_for Alice 0) rep1 (world0 [])
       = Some (KRB5_KDCREP_MODIFIED, rep1, world0 [])
   \<and> verify_as_reply lib0 sys0 (profile_with None) 1000
        (request_for Alice KDC_OPT_CANONICALIZE) rep1 (world0 [])
       = Some (0, rep1, world0 [])
   \<and> IS_TGS_PRINC krbtgt_EX"
proof -
  have h1: "rep_enc_part2 rep1 = Some enc0"
    by (simp add: rep1_def)
  have h2: "req_server (request_for Alice opts) = Some krbtgt_EX" for opts
    by (simp add: request_for_def)
  have h3: "\<not> krb5_principal_compare lib0 (rep_client rep1) (req_client (request_for Alice opts))"
    for opts
    by (simp add: request_for_def rep1_def rep0_def lib0_def Alice_def alice_def)
  from C2_client_rewrite_only_when_sanctioned [OF h1 h2 [of KDC_OPT_CANONICALIZE]
      h3 [of KDC_OPT_CANONICALIZE], of sys0 "profile_with None" 1000 "world0 []"] verify_canon
  have "IS_TGS_PRINC krbtgt_EX" by simp
  with h1 h2 h3 verify_not_canon verify_canon show ?thesis by blast
qed

subsection \<open>The decryptor\<close>

text \<open>
  Claim C8. If the reply is already decrypted (\<open>rep_enc_part2\<close> is set),
  \<open>decrypt_as_reply\<close> returns 0 at once: the reply and the world are as they were,
  whatever the callbacks and the key are, so neither callback was invoked.
\<close>

theorem C8_decrypt_as_reply_idempotent:
  "rep_enc_part2 as_reply \<noteq> None \<Longrightarrow>
     decrypt_as_reply lib kp dp as_reply key w = Some (0, as_reply, w)
     \<and> decrypt_as_reply lib kp dp as_reply key w = decrypt_as_reply lib kp' dp' as_reply key' w"
  by (simp add: decrypt_as_reply_def)

theorem C8_witness:
  "rep_enc_part2 rep1 \<noteq> None
   \<and> decrypt_as_reply lib0 (Some noisy_key_proc) noisy_decrypt_proc rep1 None (world0 [])
      = Some (0, rep1, world0 [])
   \<and> decrypt_as_reply lib0 (Some noisy_key_proc) noisy_decrypt_proc rep1 (Some key0) (world0 [])
      = Some (0, rep1, world0 [])"
proof -
  have h: "rep_enc_part2 rep1 \<noteq> None"
    by (simp add: rep1_def)
  from C8_decrypt_as_reply_idempotent [OF h, of lib0 "Some noisy_key_proc" noisy_decrypt_proc
      None "world0 []"]
    C8_decrypt_as_reply_idempotent [OF h, of lib0 "Some noisy_key_proc" noisy_decrypt_proc
      "Some key0" "world0 []"] h
  show ?thesis by blast
qed

subsection \<open>The retained error\<close>

text \<open>
  Claim C10. If the context retains no KRB-ERROR, \<open>krb5_init_creds_get_error\<close> returns 0
  and sets its output pointer to \<^verbatim>\<open>NULL\<close>.
\<close>

theorem C10_get_error_without_error:
  "icc_err_reply ctx = None \<Longrightarrow> krb5_init_creds_get_error ctx = (0, None)"
  by (simp add: krb5_init_creds_get_error_def)

theorem C10_witness:
  "icc_err_reply icc0 = None \<and> krb5_init_creds_get_error icc0 = (0, None)"
  using C10_get_error_without_error [of icc0] by (simp add: icc0_def)

subsection \<open>The ordering as a whole\<close>

lemma sorted_shape_split:
  assumes "sorted_shape named xs 0 R"
  shows "\<exists>front tail. R = front @ tail \<and> sint ` pa_type ` set front \<subseteq> named
           \<and> subseq tail xs \<and> mset R = mset xs \<and> length R = length xs"
proof -
  from assms obtain n where n: "n \<le> length xs" "length R = length xs"
    "sint ` pa_type ` set (take n R) \<subseteq> named" "subseq (drop n R) xs" "mset R = mset xs"
    unfolding sorted_shape_def by auto
  have "R = take n R @ drop n R" by simp
  with n show ?thesis by blast
qed

lemma unnamed_keep_order:
  assumes R: "R = front @ tail" and f: "sint ` pa_type ` set front \<subseteq> named"
    and sub: "subseq tail xs" and m: "mset R = mset xs"
  shows "filter (\<lambda>e. sint (pa_type e) \<notin> named) tail = filter (\<lambda>e. sint (pa_type e) \<notin> named) xs"
proof -
  let ?P = "\<lambda>e. sint (pa_type e) \<notin> named"
  have "filter ?P front = []"
    using f by (auto simp: filter_empty_conv)
  then have "filter ?P R = filter ?P tail"
    using R by simp
  moreover have "mset (filter ?P R) = mset (filter ?P xs)"
    using m by (simp only: mset_filter)
  ultimately have "length (filter ?P tail) = length (filter ?P xs)"
    by (metis size_mset)
  moreover have "subseq (filter ?P tail) (filter ?P xs)"
    using sub by (rule subseq_filter)
  ultimately show ?thesis
    by (rule subseq_same_length [rotated])
qed

lemma sort_loop_result:
  "\<exists>front tail. sort_loop p xs 0 = front @ tail
     \<and> (\<forall>e \<in> set front. sint (pa_type e) \<in> set (pref_types p))
     \<and> subseq tail xs
     \<and> filter (\<lambda>e. sint (pa_type e) \<notin> set (pref_types p)) tail
         = filter (\<lambda>e. sint (pa_type e) \<notin> set (pref_types p)) xs
     \<and> mset (sort_loop p xs 0) = mset xs \<and> length (sort_loop p xs 0) = length xs"
proof -
  have "sorted_shape (set (pref_types p)) xs 0 (sort_loop p xs 0)"
    by (rule sort_loop_shape) simp
  from sorted_shape_split [OF this] obtain front tail where
    ft: "sort_loop p xs 0 = front @ tail" "sint ` pa_type ` set front \<subseteq> set (pref_types p)"
      "subseq tail xs" "mset (sort_loop p xs 0) = mset xs"
      "length (sort_loop p xs 0) = length xs"
    by blast
  from unnamed_keep_order [OF ft(1,2,3,4)] ft show ?thesis
    by (intro exI [of _ front] exI [of _ tail]) auto
qed

lemma sort_with_pref:
  assumes "krb5_libdefault_string context realm KRB5_CONF_PREFERRED_PREAUTH_TYPES = (0, Some pref)"
  shows "sort_krb5_padata_sequence context realm (Some xs) = (0, Some (sort_loop pref xs 0))"
proof (cases xs)
  case Nil
  then show ?thesis
    using sort_loop_result [of pref "[]"] by (auto simp: sort_krb5_padata_sequence_def)
next
  case (Cons e es)
  then show ?thesis
    using assms by (simp add: sort_krb5_padata_sequence_def)
qed

lemma sort_loop_empty_pref: "sort_loop [] xs base = xs"
  by (simp add: sort_loop.simps)

lemma strtol_defs:
  "strtol ''1'' = (1, [])" "strtol ''1, 3'' = (1, '', 3'')" "strtol ''3'' = (3, [])"
  "strtol ''x, 3'' = (0, ''x, 3'')" "strtol ''1, x, 3'' = (1, '', x, 3'')"
  by (simp_all add: strtol_def isspace_c_def isdigit_c_def digits_value_def LONG_MAX_def
      LONG_MIN_def)

lemma sort_example_1:
  assumes "pa_type a = 2" "pa_type b = 1" "pa_type c = 3"
  shows "sort_loop ''1'' [a, b, c] 0 = [b, a, c]"
  using assms
  by (simp add: sort_loop.simps pa_search.simps pa_shift.simps strtol_defs)

lemma sort_example_2:
  assumes "pa_type a = 2" "pa_type b = 1" "pa_type c = 3"
  shows "sort_loop ''1, 3'' [a, b, c] 0 = [b, c, a]"
  using assms
  by (simp add: sort_loop.simps pa_search.simps pa_shift.simps strtol_defs)

lemma sort_example_3:
  assumes "pa_type a = 2" "pa_type b = 1" "pa_type c = 3"
  shows "sort_loop ''1, x, 3'' [a, b, c] 0 = [b, a, c]"
  using assms
  by (simp add: sort_loop.simps pa_search.simps pa_shift.simps strtol_defs)

lemma find_first_match:
  "find P ys = Some e \<Longrightarrow>
     P e \<and> length (takeWhile (\<lambda>x. \<not> P x) ys) < length ys
     \<and> ys ! length (takeWhile (\<lambda>x. \<not> P x) ys) = e
     \<and> remove1 e ys = take (length (takeWhile (\<lambda>x. \<not> P x) ys)) ys
          @ drop (Suc (length (takeWhile (\<lambda>x. \<not> P x) ys))) ys"
proof (induction ys)
  case Nil
  then show ?case by simp
next
  case (Cons y ys)
  show ?case
  proof (cases "P y")
    case True
    with Cons.prems show ?thesis by simp
  next
    case False
    with Cons.prems have f: "find P ys = Some e" by simp
    from Cons.IH [OF f] have "P e" by simp
    with False have "e \<noteq> y" by auto
    with Cons.IH [OF f] False show ?thesis by simp
  qed
qed

lemma pa_search_first:
  "base \<le> i \<Longrightarrow>
   pa_search xs i base l =
     (case find (\<lambda>e. sint (pa_type e) = l) (drop i xs) of
        None \<Rightarrow> (xs, base)
      | Some e \<Rightarrow>
          (bubble xs (i + length (takeWhile (\<lambda>e. sint (pa_type e) \<noteq> l) (drop i xs))) base,
           Suc base))"
proof (induction xs i base l rule: pa_search.induct)
  case (1 padata i base l)
  show ?case
  proof (cases "i < length padata")
    case False
    then show ?thesis by (subst pa_search.simps) simp
  next
    case True
    then have d: "drop i padata = padata ! i # drop (Suc i) padata"
      by (simp add: Cons_nth_drop_Suc)
    show ?thesis
    proof (cases "sint (pa_type (padata ! i)) = l")
      case hit: True
      have "pa_search padata i base l = (bubble padata i base, Suc base)"
        using True hit "1.prems"
        by (subst pa_search.simps) (simp add: pa_shift_bubble)
      with hit show ?thesis by (simp add: d)
    next
      case miss: False
      have eq: "pa_search padata i base l = pa_search padata (i + 1) base l"
        using True miss by (subst pa_search.simps) simp
      from "1.IH" [OF True miss] "1.prems" miss show ?thesis
        unfolding eq by (simp add: d split: option.split)
    qed
  qed
qed

lemma pa_search_preferred:
  assumes "base \<le> length xs"
  shows "pa_search xs base base l =
     (case find (\<lambda>e. sint (pa_type e) = l) (drop base xs) of
        None \<Rightarrow> (xs, base)
      | Some e \<Rightarrow> (take base xs @ e # remove1 e (drop base xs), Suc base))"
proof (cases "find (\<lambda>e. sint (pa_type e) = l) (drop base xs)")
  case None
  then show ?thesis by (simp add: pa_search_first)
next
  case (Some e)
  let ?ys = "drop base xs"
  let ?n = "length (takeWhile (\<lambda>e. sint (pa_type e) \<noteq> l) ?ys)"
  from find_first_match [OF Some]
  have n: "?n < length ?ys" "?ys ! ?n = e"
    "remove1 e ?ys = take ?n ?ys @ drop (Suc ?n) ?ys"
    by simp_all
  have k: "base + ?n < length xs" using n(1) by simp
  have "bubble xs (base + ?n) base = take base xs @ [xs ! (base + ?n)] @ take ?n ?ys
      @ drop (Suc (base + ?n)) xs"
    by (simp add: bubble_def)
  also have "xs ! (base + ?n) = e" using n(2) assms by simp
  also have "drop (Suc (base + ?n)) xs = drop (Suc ?n) ?ys" by (simp add: add.commute)
  finally have "bubble xs (base + ?n) base = take base xs @ e # remove1 e ?ys"
    using n(3) by simp
  with Some show ?thesis by (simp add: pa_search_first)
qed

lemma sort_loop_preferred:
  "base \<le> length xs \<Longrightarrow>
   sort_loop p xs base
     = take base xs @ fst (preferred_first (pref_types p) (drop base xs))
         @ snd (preferred_first (pref_types p) (drop base xs))"
proof (induction p xs base rule: sort_loop.induct)
  case (1 p padata base)
  let ?p1 = "dropWhile (\<lambda>c. c = CHR '','' \<or> c = CHR '' '') p"
  show ?case
  proof (cases "?p1 = []")
    case True
    then show ?thesis
      by (simp only: sort_loop_end pref_types_end) simp
  next
    case False
    then have pne: "p \<noteq> []" by auto
    obtain l q where lq: "strtol ?p1 = (l, q)" by (cases "strtol ?p1")
    show ?thesis
    proof (cases "length q < length ?p1")
      case stop: False
      then have "sort_loop p padata base = padata" "pref_types p = []"
        using False lq
        by (intro sort_loop_stop [where ?p1.0 = ?p1] pref_types_stop [where ?p1.0 = ?p1]; simp)+
      then show ?thesis by simp
    next
      case True
      obtain xs' base' where ps: "pa_search padata base base l = (xs', base')"
        by (cases "pa_search padata base base l")
      have sl: "sort_loop p padata base = sort_loop q xs' base'"
        using False lq True ps by (intro sort_loop_step [where ?p1.0 = ?p1]) simp_all
      have pt: "pref_types p = l # pref_types q"
        using False lq True by (intro pref_types_step [where ?p1.0 = ?p1]) simp_all
      have IH: "base' \<le> length xs' \<Longrightarrow>
          sort_loop q xs' base' = take base' xs' @ fst (preferred_first (pref_types q) (drop base' xs'))
             @ snd (preferred_first (pref_types q) (drop base' xs'))"
        using "1.IH"(1) [OF pne refl False lq [symmetric] True ps [symmetric]] .
      show ?thesis
      proof (cases "find (\<lambda>e. sint (pa_type e) = l) (drop base padata)")
        case None
        with ps pa_search_preferred [OF "1.prems", of l] have "xs' = padata" "base' = base"
          by simp_all
        with IH "1.prems" None show ?thesis
          unfolding sl pt by simp
      next
        case (Some e)
        with ps pa_search_preferred [OF "1.prems", of l]
        have x: "xs' = take base padata @ e # remove1 e (drop base padata)" "base' = Suc base"
          by simp_all
        have len: "length (take base padata) = base" using "1.prems" by simp
        have t: "take (Suc base) xs' = take base padata @ [e]"
          unfolding x(1) using len by (simp add: take_Suc_conv_app_nth nth_append)
        have d: "drop (Suc base) xs' = remove1 e (drop base padata)"
          unfolding x(1) using len by simp
        have "Suc base \<le> length xs'" unfolding x(1) using len by simp
        from IH [unfolded x(2), OF this] t d Some show ?thesis
          unfolding sl pt x(2) by (simp add: case_prod_beta)
      qed
    qed
  qed
qed

lemma preferred_first_named:
  "\<forall>e \<in> set (fst (preferred_first ls xs)). sint (pa_type e) \<in> set ls"
proof (induction ls arbitrary: xs)
  case Nil
  then show ?case by simp
next
  case (Cons l ls)
  show ?case
  proof (cases "find (\<lambda>e. sint (pa_type e) = l) xs")
    case None
    with Cons [of xs] show ?thesis by simp
  next
    case (Some e)
    from find_first_match [OF Some] have "sint (pa_type e) = l" by simp
    with Some Cons [of "remove1 e xs"] show ?thesis by (simp add: case_prod_beta)
  qed
qed

lemma preferred_first_order:
  "subseq (map (\<lambda>e. sint (pa_type e)) (fst (preferred_first ls xs))) ls"
proof (induction ls arbitrary: xs)
  case Nil
  then show ?case by simp
next
  case (Cons l ls)
  show ?case
  proof (cases "find (\<lambda>e. sint (pa_type e) = l) xs")
    case None
    with Cons [of xs] show ?thesis by (simp add: list_emb_Cons)
  next
    case (Some e)
    from find_first_match [OF Some] have "sint (pa_type e) = l" by simp
    with Some Cons [of "remove1 e xs"] show ?thesis by (simp add: case_prod_beta)
  qed
qed

lemma preferred_first_all:
  "l \<in> set ls \<Longrightarrow> x \<in> set xs \<Longrightarrow> sint (pa_type x) = l \<Longrightarrow>
   \<exists>e \<in> set (fst (preferred_first ls xs)). sint (pa_type e) = l"
proof (induction ls arbitrary: xs)
  case Nil
  then show ?case by simp
next
  case (Cons l' ls)
  show ?case
  proof (cases "find (\<lambda>e. sint (pa_type e) = l') xs")
    case None
    then have "l \<noteq> l'" using Cons.prems by (auto simp: find_None_iff)
    with Cons.prems Cons.IH [of xs] None show ?thesis by simp
  next
    case (Some e)
    from find_first_match [OF Some] have e: "sint (pa_type e) = l'" by simp
    show ?thesis
    proof (cases "l = l'")
      case True
      with Some e show ?thesis by (simp add: case_prod_beta)
    next
      case False
      with e Cons.prems have "x \<noteq> e" by auto
      with Cons.prems have "x \<in> set (remove1 e xs)" by simp
      with Cons.prems False Cons.IH [of "remove1 e xs"] Some show ?thesis
        by (simp add: case_prod_beta)
    qed
  qed
qed

lemma subseq_remove1_list: "subseq (remove1 e xs) xs"
  by (induction xs) (auto intro: list_emb_Cons)

lemma preferred_first_rest: "subseq (snd (preferred_first ls xs)) xs"
proof (induction ls arbitrary: xs)
  case Nil
  then show ?case by simp
next
  case (Cons l ls)
  show ?case
  proof (cases "find (\<lambda>e. sint (pa_type e) = l) xs")
    case None
    with Cons [of xs] show ?thesis by simp
  next
    case (Some e)
    have "subseq (snd (preferred_first ls (remove1 e xs))) xs"
      using Cons [of "remove1 e xs"] subseq_remove1_list [of e xs]
        subseq_order.order_trans by blast
    with Some show ?thesis by (simp add: case_prod_beta)
  qed
qed

lemma preferred_first_mset:
  "mset (fst (preferred_first ls xs)) + mset (snd (preferred_first ls xs)) = mset xs"
proof (induction ls arbitrary: xs)
  case Nil
  then show ?case by simp
next
  case (Cons l ls)
  show ?case
  proof (cases "find (\<lambda>e. sint (pa_type e) = l) xs")
    case None
    with Cons [of xs] show ?thesis by simp
  next
    case (Some e)
    from find_first_match [OF Some] have "e \<in> set xs"
      by (metis nth_mem)
    with Some Cons [of "remove1 e xs"] show ?thesis by (simp add: case_prod_beta)
  qed
qed


lemma sort_example_4:
  assumes "pa_type a = 2" "pa_type b = 3" "pa_type c = 4" "pa_type d = 1"
  shows "sort_loop ''1'' [a, b, c, d] 0 = [d, a, b, c]"
  using assms
  by (simp add: sort_loop.simps pa_search.simps pa_shift.simps strtol_defs)

lemma sort_example_5:
  assumes "pa_type a = 2" "pa_type b = 1" "pa_type c = 1"
  shows "sort_loop ''1'' [a, b, c] 0 = [b, a, c]"
  using assms
  by (simp add: sort_loop.simps pa_search.simps pa_shift.simps strtol_defs)

lemma pref_types_examples:
  "pref_types ''1'' = [1]" "pref_types ''1, 3'' = [1, 3]" "pref_types ''1, x, 3'' = [1]"
  "pref_types ''17, 16, 15, 14'' = [17, 16, 15, 14]"
  by code_simp+

lemma sort_loop_front_tail:
  "case preferred_first (pref_types p) xs of (front, tail) \<Rightarrow>
     sort_loop p xs 0 = front @ tail
     \<and> (\<forall>e \<in> set front. sint (pa_type e) \<in> set (pref_types p))
     \<and> (\<forall>x \<in> set xs. sint (pa_type x) \<in> set (pref_types p)
           \<longrightarrow> (\<exists>e \<in> set front. sint (pa_type e) = sint (pa_type x)))
     \<and> subseq (map (\<lambda>e. sint (pa_type e)) front) (pref_types p)
     \<and> subseq tail xs
     \<and> filter (\<lambda>e. sint (pa_type e) \<notin> set (pref_types p)) tail
         = filter (\<lambda>e. sint (pa_type e) \<notin> set (pref_types p)) xs"
proof -
  obtain front tail where ft: "preferred_first (pref_types p) xs = (front, tail)"
    by (cases "preferred_first (pref_types p) xs")
  have r: "sort_loop p xs 0 = front @ tail"
    using sort_loop_preferred [of 0 xs p] ft by simp
  have n: "\<forall>e \<in> set front. sint (pa_type e) \<in> set (pref_types p)"
    using preferred_first_named [of "pref_types p" xs] ft by simp
  have a: "\<forall>x \<in> set xs. sint (pa_type x) \<in> set (pref_types p)
           \<longrightarrow> (\<exists>e \<in> set front. sint (pa_type e) = sint (pa_type x))"
  proof (intro ballI impI)
    fix x assume "x \<in> set xs" "sint (pa_type x) \<in> set (pref_types p)"
    from preferred_first_all [OF this(2) this(1) refl] ft
    show "\<exists>e \<in> set front. sint (pa_type e) = sint (pa_type x)" by auto
  qed
  have ord: "subseq (map (\<lambda>e. sint (pa_type e)) front) (pref_types p)"
    using preferred_first_order [of "pref_types p" xs] ft by simp
  have sub: "subseq tail xs"
    using preferred_first_rest [of "pref_types p" xs] ft by simp
  have m: "mset (front @ tail) = mset xs"
    using preferred_first_mset [of "pref_types p" xs] ft by simp
  have f: "sint ` pa_type ` set front \<subseteq> set (pref_types p)"
    using n by auto
  note k = unnamed_keep_order [OF refl f sub m]
  from r n a ord sub k show ?thesis
    unfolding ft by simp
qed

text \<open>
  Claim C7. With the preference string \<open>pref\<close> configured, the ordering turns a list of
  types \<open>[2, 1, 3]\<close> into \<open>[1, 2, 3]\<close> for \<open>pref = "1"\<close> and into \<open>[1, 3, 2]\<close> for
  \<open>pref = "1, 3"\<close>; with the empty string it leaves every list (and \<^verbatim>\<open>NULL\<close>) as it is.

  In general the result is \<open>front @ tail\<close> for the \<open>front\<close> and \<open>tail\<close> of
  \<open>preferred_first\<close>: for each type that the string names, in the order of the string, the
  first entry of that type not yet chosen is brought to the front, wherever it stands in
  the list, and the entries that are left follow in their original order. Hence every
  entry of the front has a named type, every named type that occurs in the list has an
  entry in the front, the types of the front follow the order of the string, and every
  entry of a type that is not named is in the tail, in the original relative order. So
  types \<open>[2, 3, 4, 1]\<close> become \<open>[1, 2, 3, 4]\<close> under \<open>"1"\<close>, and of two entries of type 1 in
  \<open>[2, 1, 1]\<close> only the first is moved.

  A token that \<^verbatim>\<open>strtol\<close> cannot parse ends the parsing, and the function still returns
  0: at the start of the string nothing is named and the list is unchanged, and after
  \<open>"1"\<close> in \<open>"1, x, 3"\<close> the type 3 is no longer moved.
\<close>

theorem C7_preauth_ordering:
  assumes "krb5_libdefault_string context realm KRB5_CONF_PREFERRED_PREAUTH_TYPES = (0, Some pref)"
  shows
    "(pref = ''1'' \<and> map pa_type [a, b, c] = [2, 1, 3]
        \<longrightarrow> sort_krb5_padata_sequence context realm (Some [a, b, c]) = (0, Some [b, a, c]))
     \<and> (pref = ''1, 3'' \<and> map pa_type [a, b, c] = [2, 1, 3]
        \<longrightarrow> sort_krb5_padata_sequence context realm (Some [a, b, c]) = (0, Some [b, c, a]))
     \<and> (pref = [] \<longrightarrow> sort_krb5_padata_sequence context realm padata = (0, padata))
     \<and> (case preferred_first (pref_types pref) xs of (front, tail) \<Rightarrow>
           sort_krb5_padata_sequence context realm (Some xs) = (0, Some (front @ tail))
           \<and> (\<forall>e \<in> set front. sint (pa_type e) \<in> set (pref_types pref))
           \<and> (\<forall>x \<in> set xs. sint (pa_type x) \<in> set (pref_types pref)
                 \<longrightarrow> (\<exists>e \<in> set front. sint (pa_type e) = sint (pa_type x)))
           \<and> subseq (map (\<lambda>e. sint (pa_type e)) front) (pref_types pref)
           \<and> subseq tail xs
           \<and> filter (\<lambda>e. sint (pa_type e) \<notin> set (pref_types pref)) tail
               = filter (\<lambda>e. sint (pa_type e) \<notin> set (pref_types pref)) xs)
     \<and> (pref = ''1'' \<and> map pa_type [a, b, c, d] = [2, 3, 4, 1]
        \<longrightarrow> sort_krb5_padata_sequence context realm (Some [a, b, c, d]) = (0, Some [d, a, b, c]))
     \<and> (pref = ''1'' \<and> map pa_type [a, b, c] = [2, 1, 1]
        \<longrightarrow> sort_krb5_padata_sequence context realm (Some [a, b, c]) = (0, Some [b, a, c]))
     \<and> (dropWhile (\<lambda>c. c = CHR '','' \<or> c = CHR '' '') pref = t \<and> t \<noteq> []
          \<and> length t \<le> length (snd (strtol t))
        \<longrightarrow> pref_types pref = []
            \<and> sort_krb5_padata_sequence context realm (Some xs) = (0, Some xs))
     \<and> (pref = ''1, x, 3'' \<and> map pa_type [a, b, c] = [2, 1, 3]
        \<longrightarrow> sort_krb5_padata_sequence context realm (Some [a, b, c]) = (0, Some [b, a, c]))"
proof -
  note s = sort_with_pref [OF assms]
  have 1: "pref = ''1'' \<and> map pa_type [a, b, c] = [2, 1, 3]
        \<longrightarrow> sort_krb5_padata_sequence context realm (Some [a, b, c]) = (0, Some [b, a, c])"
    by (simp add: s sort_example_1)
  have 2: "pref = ''1, 3'' \<and> map pa_type [a, b, c] = [2, 1, 3]
        \<longrightarrow> sort_krb5_padata_sequence context realm (Some [a, b, c]) = (0, Some [b, c, a])"
    by (simp add: s sort_example_2)
  have 3: "pref = [] \<longrightarrow> sort_krb5_padata_sequence context realm padata = (0, padata)"
  proof (cases padata)
    case None
    then show ?thesis by (simp add: sort_krb5_padata_sequence_def)
  next
    case (Some ys)
    then show ?thesis by (simp add: s sort_loop_empty_pref)
  qed
  have 4: "case preferred_first (pref_types pref) xs of (front, tail) \<Rightarrow>
           sort_krb5_padata_sequence context realm (Some xs) = (0, Some (front @ tail))
           \<and> (\<forall>e \<in> set front. sint (pa_type e) \<in> set (pref_types pref))
           \<and> (\<forall>x \<in> set xs. sint (pa_type x) \<in> set (pref_types pref)
                 \<longrightarrow> (\<exists>e \<in> set front. sint (pa_type e) = sint (pa_type x)))
           \<and> subseq (map (\<lambda>e. sint (pa_type e)) front) (pref_types pref)
           \<and> subseq tail xs
           \<and> filter (\<lambda>e. sint (pa_type e) \<notin> set (pref_types pref)) tail
               = filter (\<lambda>e. sint (pa_type e) \<notin> set (pref_types pref)) xs"
    using sort_loop_front_tail [of pref xs] unfolding s by (simp add: case_prod_beta)
  have 5: "pref = ''1'' \<and> map pa_type [a, b, c, d] = [2, 3, 4, 1]
        \<longrightarrow> sort_krb5_padata_sequence context realm (Some [a, b, c, d]) = (0, Some [d, a, b, c])"
    by (simp add: s sort_example_4)
  have 6: "pref = ''1'' \<and> map pa_type [a, b, c] = [2, 1, 1]
        \<longrightarrow> sort_krb5_padata_sequence context realm (Some [a, b, c]) = (0, Some [b, a, c])"
    by (simp add: s sort_example_5)
  have 7: "dropWhile (\<lambda>c. c = CHR '','' \<or> c = CHR '' '') pref = t \<and> t \<noteq> []
          \<and> length t \<le> length (snd (strtol t))
        \<longrightarrow> pref_types pref = []
            \<and> sort_krb5_padata_sequence context realm (Some xs) = (0, Some xs)"
    unfolding s by (auto simp: pref_types_stop sort_loop_stop)
  have 8: "pref = ''1, x, 3'' \<and> map pa_type [a, b, c] = [2, 1, 3]
        \<longrightarrow> sort_krb5_padata_sequence context realm (Some [a, b, c]) = (0, Some [b, a, c])"
    by (simp add: s sort_example_3)
  from 1 2 3 4 5 6 7 8 show ?thesis by (intro conjI)
qed

lemma libdefault_profile_with:
  "krb5_libdefault_string (profile_with (Some pref)) ''EX'' KRB5_CONF_PREFERRED_PREAUTH_TYPES
   = (0, Some pref)"
  by (simp add: krb5_libdefault_string_def profile_with_def KRB5_CONF_LIBDEFAULTS_def
      KRB5_CONF_PREFERRED_PREAUTH_TYPES_def ENOENT_def)

theorem C7_witness:
  "sort_krb5_padata_sequence (profile_with (Some ''1'')) ''EX'' (Some [pa 2, pa 1, pa 3])
     = (0, Some [pa 1, pa 2, pa 3])
   \<and> sort_krb5_padata_sequence (profile_with (Some ''1, 3'')) ''EX'' (Some [pa 2, pa 1, pa 3])
     = (0, Some [pa 1, pa 3, pa 2])
   \<and> sort_krb5_padata_sequence (profile_with (Some [])) ''EX'' (Some [pa 2, pa 1, pa 3])
     = (0, Some [pa 2, pa 1, pa 3])
   \<and> preferred_first (pref_types ''3, 1'') [pa 2, pa 1, pa 3, pa 1]
     = ([pa 3, pa 1], [pa 2, pa 1])
   \<and> sort_krb5_padata_sequence (profile_with (Some ''3, 1'')) ''EX''
        (Some [pa 2, pa 1, pa 3, pa 1])
     = (0, Some [pa 3, pa 1, pa 2, pa 1])
   \<and> sort_krb5_padata_sequence (profile_with (Some ''1'')) ''EX''
        (Some [pa 2, pa 3, pa 4, pa 1])
     = (0, Some [pa 1, pa 2, pa 3, pa 4])
   \<and> sort_krb5_padata_sequence (profile_with (Some ''1'')) ''EX''
        (Some [pa 2, pa 1, (pa 1)\<lparr>pa_contents := [9]\<rparr>])
     = (0, Some [pa 1, pa 2, (pa 1)\<lparr>pa_contents := [9]\<rparr>])
   \<and> sort_krb5_padata_sequence (profile_with (Some ''x, 3'')) ''EX'' (Some [pa 2, pa 1, pa 3])
     = (0, Some [pa 2, pa 1, pa 3])
   \<and> sort_krb5_padata_sequence (profile_with (Some ''1, x, 3'')) ''EX''
        (Some [pa 2, pa 1, pa 3])
     = (0, Some [pa 1, pa 2, pa 3])"
proof -
  have t: "map pa_type [pa 2, pa 1, pa 3] = [2, 1, 3]"
    by (simp add: pa_def)
  have t4: "map pa_type [pa 2, pa 3, pa 4, pa 1] = [2, 3, 4, 1]"
    by (simp add: pa_def)
  have t5: "map pa_type [pa 2, pa 1, (pa 1)\<lparr>pa_contents := [9]\<rparr>] = [2, 1, 1]"
    by (simp add: pa_def)
  have x: "dropWhile (\<lambda>c. c = CHR '','' \<or> c = CHR '' '') ''x, 3'' = ''x, 3'' \<and> ''x, 3'' \<noteq> []
      \<and> length ''x, 3'' \<le> length (snd (strtol ''x, 3''))"
    by (simp add: strtol_defs)
  have pf: "preferred_first (pref_types ''3, 1'') [pa 2, pa 1, pa 3, pa 1]
     = ([pa 3, pa 1], [pa 2, pa 1])"
    by code_simp
  note c1 = C7_preauth_ordering [OF libdefault_profile_with [of "''1''"],
      of "pa 2" "pa 1" "pa 3", THEN conjunct1, rule_format]
  note c2 = C7_preauth_ordering [OF libdefault_profile_with [of "''1, 3''"],
      of "pa 2" "pa 1" "pa 3", THEN conjunct2, THEN conjunct1, rule_format]
  note c3 = C7_preauth_ordering [OF libdefault_profile_with [of "[]"],
      of _ _ _ "Some [pa 2, pa 1, pa 3]", THEN conjunct2, THEN conjunct2, THEN conjunct1,
      rule_format]
  note c4 = C7_preauth_ordering [OF libdefault_profile_with [of "''3, 1''"],
      of _ _ _ _ "[pa 2, pa 1, pa 3, pa 1]", THEN conjunct2, THEN conjunct2, THEN conjunct2,
      THEN conjunct1, unfolded pf prod.case, THEN conjunct1]
  note c5 = C7_preauth_ordering [OF libdefault_profile_with [of "''1''"],
      of "pa 2" "pa 3" "pa 4" _ _ "pa 1", THEN conjunct2, THEN conjunct2, THEN conjunct2,
      THEN conjunct2, THEN conjunct1, rule_format]
  note c6 = C7_preauth_ordering [OF libdefault_profile_with [of "''1''"],
      of "pa 2" "pa 1" "(pa 1)\<lparr>pa_contents := [9]\<rparr>", THEN conjunct2, THEN conjunct2,
      THEN conjunct2, THEN conjunct2, THEN conjunct2, THEN conjunct1, rule_format]
  note c7 = C7_preauth_ordering [OF libdefault_profile_with [of "''x, 3''"],
      of _ _ _ _ "[pa 2, pa 1, pa 3]" _ "''x, 3''", THEN conjunct2, THEN conjunct2,
      THEN conjunct2, THEN conjunct2, THEN conjunct2, THEN conjunct2, THEN conjunct1,
      rule_format]
  note c8 = C7_preauth_ordering [OF libdefault_profile_with [of "''1, x, 3''"],
      of "pa 2" "pa 1" "pa 3", THEN conjunct2, THEN conjunct2, THEN conjunct2,
      THEN conjunct2, THEN conjunct2, THEN conjunct2, THEN conjunct2, rule_format]
  have 1: "sort_krb5_padata_sequence (profile_with (Some ''1'')) ''EX'' (Some [pa 2, pa 1, pa 3])
     = (0, Some [pa 1, pa 2, pa 3])"
    using t by (intro c1) simp
  have 2: "sort_krb5_padata_sequence (profile_with (Some ''1, 3'')) ''EX'' (Some [pa 2, pa 1, pa 3])
     = (0, Some [pa 1, pa 3, pa 2])"
    using t by (intro c2) simp
  have 3: "sort_krb5_padata_sequence (profile_with (Some [])) ''EX'' (Some [pa 2, pa 1, pa 3])
     = (0, Some [pa 2, pa 1, pa 3])"
    by (intro c3) simp
  have 4: "sort_krb5_padata_sequence (profile_with (Some ''3, 1'')) ''EX''
        (Some [pa 2, pa 1, pa 3, pa 1])
     = (0, Some [pa 3, pa 1, pa 2, pa 1])"
    using c4 by simp
  have 5: "sort_krb5_padata_sequence (profile_with (Some ''1'')) ''EX''
        (Some [pa 2, pa 3, pa 4, pa 1])
     = (0, Some [pa 1, pa 2, pa 3, pa 4])"
    using t4 by (intro c5) simp
  have 6: "sort_krb5_padata_sequence (profile_with (Some ''1'')) ''EX''
        (Some [pa 2, pa 1, (pa 1)\<lparr>pa_contents := [9]\<rparr>])
     = (0, Some [pa 1, pa 2, (pa 1)\<lparr>pa_contents := [9]\<rparr>])"
    using t5 by (intro c6) simp
  have 7: "sort_krb5_padata_sequence (profile_with (Some ''x, 3'')) ''EX'' (Some [pa 2, pa 1, pa 3])
     = (0, Some [pa 2, pa 1, pa 3])"
    using c7 [OF x] by simp
  have 8: "sort_krb5_padata_sequence (profile_with (Some ''1, x, 3'')) ''EX''
     (Some [pa 2, pa 1, pa 3]) = (0, Some [pa 1, pa 2, pa 3])"
    using t by (intro c8) simp
  from 1 2 3 pf 4 5 6 7 8 show ?thesis by (intro conjI)
qed

text \<open>
  Claim C9. For every list and every configuration the ordering returns 0, and its
  result is a permutation of the input: the same entries, unmodified, and the same
  length (so the terminating \<^verbatim>\<open>NULL\<close> stays where it is); \<^verbatim>\<open>NULL\<close> and the empty list are
  returned as they are.
\<close>

theorem C9_sort_permutes_in_place:
  "fst (sort_krb5_padata_sequence context realm padata) = 0
   \<and> map_option mset (snd (sort_krb5_padata_sequence context realm padata)) = map_option mset padata
   \<and> map_option length (snd (sort_krb5_padata_sequence context realm padata))
       = map_option length padata
   \<and> sort_krb5_padata_sequence context realm None = (0, None)
   \<and> sort_krb5_padata_sequence context realm (Some []) = (0, Some [])"
proof -
  have n: "sort_krb5_padata_sequence context realm None = (0, None)"
    and e: "sort_krb5_padata_sequence context realm (Some []) = (0, Some [])"
    by (simp_all add: sort_krb5_padata_sequence_def)
  have "fst (sort_krb5_padata_sequence context realm padata) = 0
   \<and> map_option mset (snd (sort_krb5_padata_sequence context realm padata)) = map_option mset padata
   \<and> map_option length (snd (sort_krb5_padata_sequence context realm padata))
       = map_option length padata"
  proof (cases padata)
    case None
    then show ?thesis by (simp add: n)
  next
    case (Some xs)
    show ?thesis
    proof (cases xs)
      case Nil
      with Some show ?thesis by (simp add: e)
    next
      case (Cons y ys)
      obtain types where
        "sort_krb5_padata_sequence context realm (Some (y # ys)) = (0, Some (sort_loop types (y # ys) 0))"
        by (simp add: sort_krb5_padata_sequence_def case_prod_beta Let_def)
      with Some Cons sort_loop_result [of types "y # ys"] show ?thesis
        by auto
    qed
  qed
  with n e show ?thesis by blast
qed

theorem C9_witness:
  "fst (sort_krb5_padata_sequence (profile_with None) ''EX'' (Some [pa 2, pa 17, pa 3])) = 0
   \<and> map_option mset (snd (sort_krb5_padata_sequence (profile_with None) ''EX''
        (Some [pa 2, pa 17, pa 3]))) = Some {#pa 2, pa 17, pa 3#}
   \<and> map_option length (snd (sort_krb5_padata_sequence (profile_with None) ''EX''
        (Some [pa 2, pa 17, pa 3]))) = Some 3"
  using C9_sort_permutes_in_place [of "profile_with None" "''EX''" "Some [pa 2, pa 17, pa 3]"]
  by auto

subsection \<open>The step interface\<close>

lemma first_step:
  "krb5_init_creds_step lib0 sys0 icc_ops0 (profile_with None) icc0 [] (world0 [])
   = Some (0, icc1, [0x6a, 7, 232], ''EX'', 0, world_at 1001)"
  by code_simp

lemma completing_step:
  "krb5_init_creds_step lib0 sys0 icc_ops0 (profile_with None) icc1 as_rep_reply (world_at 1001)
   = Some (0, icc2, [], [], KRB5_INIT_CREDS_STEP_FLAG_COMPLETE, world_at 1002)"
  by code_simp

lemma step_after_complete:
  "krb5_init_creds_step lib0 sys0 icc_ops0 (profile_with None) icc2 [] (world_at 1002)
   = Some (0, icc3, [0x6a, 7, 234], ''EX'', 0, world_at 1003)"
  by code_simp

lemma icc3_differs: "icc3 \<noteq> icc2"
  by code_simp

lemma too_big_reply_code:
  "init_creds_step_reply lib0 sys0 icc_ops0 (profile_with None) icc1 too_big_reply 0 (world_at 1001)
   = Some (KRB5KRB_ERR_RESPONSE_TOO_BIG, icc1, 0, world_at 1001)"
  by code_simp

lemma too_big_step:
  "krb5_init_creds_step lib0 sys0 icc_ops0 (profile_with None) icc1 too_big_reply (world_at 1001)
   = Some (0, icc1_again, [0x6a, 7, 233], ''EX'', 0, world_at 1002)"
  by code_simp

lemma complete_bit: "(0 :: 32 word) AND KRB5_INIT_CREDS_STEP_FLAG_COMPLETE = 0"
  by simp

lemma too_big_nonzero: "KRB5KRB_ERR_RESPONSE_TOO_BIG \<noteq> 0"
  by (simp add: KRB5KRB_ERR_RESPONSE_TOO_BIG_def ERROR_TABLE_BASE_krb5_def)

lemma step_reply_finish_complete:
  assumes "step_reply_finish lib sys ops context ctx reply 0 w = Some (code, ctx1, reply1, flags, w1)"
    and "flags AND KRB5_INIT_CREDS_STEP_FLAG_COMPLETE \<noteq> 0"
  shows "code = 0"
  using assms unfolding step_reply_finish_def
  by (auto simp: Let_def split: option.splits prod.splits if_splits)

lemma init_creds_step_reply_complete:
  assumes "init_creds_step_reply lib sys ops context ctx in_data 0 w = Some (code, ctx1, flags, w1)"
    and "flags AND KRB5_INIT_CREDS_STEP_FLAG_COMPLETE \<noteq> 0"
  shows "code = 0 \<and> icc_reply ctx1 \<noteq> None"
proof -
  from assms(1) consider
    (early) "flags = 0"
    | (finish) ctx3 reply3 w3 ctx4 reply4 where
        "step_reply_finish lib sys ops context ctx3 reply3 0 w3 = Some (code, ctx4, reply4, flags, w1)"
        "ctx1 = ctx4\<lparr>icc_reply := Some reply4\<rparr>"
    unfolding init_creds_step_reply_def
    by (auto simp: Let_def split: option.splits prod.splits if_splits)
  then show ?thesis
  proof cases
    case early
    with assms(2) show ?thesis by simp
  next
    case finish
    from step_reply_finish_complete [OF finish(1) assms(2)] finish(2) show ?thesis by simp
  qed
qed

lemma step_complete:
  assumes st: "krb5_init_creds_step lib sys ops context ctx in_data w
             = Some (code, ctx', out, realm, flags, w')"
    and fl: "flags AND KRB5_INIT_CREDS_STEP_FLAG_COMPLETE \<noteq> 0"
  shows "code = 0 \<and> out = [] \<and> realm = [] \<and> icc_reply ctx' \<noteq> None"
proof (cases "in_data = []")
  case True
  with st have "flags = 0"
    unfolding krb5_init_creds_step_def
    by (auto simp: Let_def split: option.splits prod.splits if_splits)
  with fl show ?thesis by simp
next
  case False
  show ?thesis
  proof (cases "init_creds_step_reply lib sys ops context ctx in_data 0 w")
    case None
    with st False show ?thesis
      unfolding krb5_init_creds_step_def by simp
  next
    case (Some r)
    obtain code1 ctx1 flags1 w1 where r: "r = (code1, ctx1, flags1, w1)"
      by (cases r) auto
    show ?thesis
    proof (cases "flags1 AND KRB5_INIT_CREDS_STEP_FLAG_COMPLETE = 0")
      case True
      with st False Some r have "flags = flags1"
        unfolding krb5_init_creds_step_def
        by (auto simp: Let_def split: option.splits prod.splits if_splits)
      with True fl show ?thesis by simp
    next
      case complete: False
      from init_creds_step_reply_complete [OF Some [unfolded r] complete]
      have c: "code1 = 0" "icc_reply ctx1 \<noteq> None" by simp_all
      from st False Some r c complete too_big_nonzero show ?thesis
        unfolding krb5_init_creds_step_def
        by (auto simp: Let_def split: option.splits prod.splits if_splits)
    qed
  qed
qed

lemma get_ext_when_finished:
  "icc_reply ctx \<noteq> None \<Longrightarrow>
   krb5int_init_creds_get_ext lib sys ops context ctx use_master w = Some (0, ctx, use_master, w)"
  by (simp add: krb5int_init_creds_get_ext_def)

text \<open>
  Claim C3, amended. When a call of \<open>krb5_init_creds_step\<close> has set the flag
  \<open>COMPLETE\<close>, that call returned 0 and left \<open>out\<close> and \<open>realm\<close> empty, and every later call
  of \<open>krb5int_init_creds_get_ext\<close> on the context returns 0 at once, for every
  environment: the context and the world are unchanged, so neither the step function
  nor the transport was called.
\<close>

theorem C3_complete_then_get_returns_at_once:
  assumes "krb5_init_creds_step lib sys ops context ctx in_data w
             = Some (code, ctx', out, realm, flags, w')"
    and "flags AND KRB5_INIT_CREDS_STEP_FLAG_COMPLETE \<noteq> 0"
  shows "code = 0 \<and> out = [] \<and> realm = []
     \<and> krb5int_init_creds_get_ext lib2 sys2 ops2 context2 ctx' use_master w2
         = Some (0, ctx', use_master, w2)"
  using step_complete [OF assms] by (simp add: get_ext_when_finished)

theorem C3_witness:
  "krb5_init_creds_step lib0 sys0 icc_ops0 (profile_with None) icc1 as_rep_reply (world_at 1001)
     = Some (0, icc2, [], [], KRB5_INIT_CREDS_STEP_FLAG_COMPLETE, world_at 1002)
   \<and> KRB5_INIT_CREDS_STEP_FLAG_COMPLETE AND KRB5_INIT_CREDS_STEP_FLAG_COMPLETE \<noteq> 0
   \<and> krb5int_init_creds_get_ext lib0 sys0 icc_ops0 (profile_with None) icc2 False
        (world0 [preauth_required_reply])
       = Some (0, icc2, False, world0 [preauth_required_reply])"
proof -
  have f: "KRB5_INIT_CREDS_STEP_FLAG_COMPLETE AND KRB5_INIT_CREDS_STEP_FLAG_COMPLETE \<noteq> 0"
    by (simp add: KRB5_INIT_CREDS_STEP_FLAG_COMPLETE_def)
  from C3_complete_then_get_returns_at_once [OF completing_step f, of lib0 sys0 icc_ops0
      "profile_with None" False "world0 [preauth_required_reply]"] completing_step f
  show ?thesis by simp
qed

text \<open>
  The claim as stated fails: \<open>krb5_init_creds_step\<close> itself does not test for
  completion. Called with no input on the completed context \<open>icc2\<close>, it builds and
  returns a request, names the realm and counts one more loop.
\<close>

theorem C3_counterexample:
  "krb5_init_creds_step lib0 sys0 icc_ops0 (profile_with None) icc1 as_rep_reply (world_at 1001)
     = Some (0, icc2, [], [], KRB5_INIT_CREDS_STEP_FLAG_COMPLETE, world_at 1002)
   \<and> krb5_init_creds_step lib0 sys0 icc_ops0 (profile_with None) icc2 [] (world_at 1002)
     = Some (0, icc3, [0x6a, 7, 234], ''EX'', 0, world_at 1003)
   \<and> icc3 \<noteq> icc2"
  using completing_step step_after_complete icc3_differs by simp

text \<open>
  Claim C4 says that when the processing of the reply yields
  \<open>KRB5KRB_ERR_RESPONSE_TOO_BIG\<close>, the step call sets \<open>out\<close> to the bytes of the request
  sent before. The code copies them, clears the code and goes on to build the next
  request: in this run the first request is \<open>[0x6a, 7, 232]\<close>, the reply is the error
  response-too-big, and the step call returns 0 with the new request \<open>[0x6a, 7, 233]\<close>
  in \<open>out\<close>.
\<close>

theorem C4_too_big_step_builds_a_new_request:
  "krb5_init_creds_step lib0 sys0 icc_ops0 (profile_with None) icc0 [] (world0 [])
     = Some (0, icc1, [0x6a, 7, 232], ''EX'', 0, world_at 1001)
   \<and> icc_encoded_previous_request icc1 = Some [0x6a, 7, 232]
   \<and> init_creds_step_reply lib0 sys0 icc_ops0 (profile_with None) icc1 too_big_reply 0
        (world_at 1001)
     = Some (KRB5KRB_ERR_RESPONSE_TOO_BIG, icc1, 0, world_at 1001)
   \<and> krb5_init_creds_step lib0 sys0 icc_ops0 (profile_with None) icc1 too_big_reply
        (world_at 1001)
     = Some (0, icc1_again, [0x6a, 7, 233], ''EX'', 0, world_at 1002)"
  using first_step too_big_reply_code too_big_step by (simp add: icc1_def)


theorem C4_witness:
  "map_option (\<lambda>(code, ctx, out, realm, flags, w). (code, out))
     (krb5_init_creds_step lib0 sys0 icc_ops0 (profile_with None) icc1 too_big_reply
        (world_at 1001))
   = Some (0, [0x6a, 7, 233])"
  using C4_too_big_step_builds_a_new_request by simp

subsection \<open>The loop limit\<close>

lemma git_run_17:
  "loop_outcome (git_loop lib0 sys0 git_ops0 (profile_with None) False True alice krbtgt_EX 0
      git_locals0 (world0 (replicate 20 preauth_required_reply)))
   = Some (KRB5_GET_IN_TKT_LOOP, 18, 17)"
  by code_simp

lemma git_run_ok:
  "loop_outcome (git_loop lib0 sys0 git_ops0 (profile_with None) False True alice krbtgt_EX 0
      git_locals0 (world0 (replicate 16 preauth_required_reply @ [as_rep_reply])))
   = Some (0, 17, 17)"
  by code_simp

lemma git_full_loop:
  "map_option (\<lambda>(code, creds, r, w). (code, length (tw_sent w)))
    (krb5_get_in_tkt lib0 sys0 git_ops0 (profile_with None) 0 None None None creds_in
     False (world0 (replicate 20 preauth_required_reply))) = Some (KRB5_GET_IN_TKT_LOOP, 17)"
  by code_simp

lemma git_full_ok:
  "map_option fst (krb5_get_in_tkt lib0 sys0 git_ops0 (profile_with None) 0 None None None
     creds_in False (world0 (replicate 16 preauth_required_reply @ [as_rep_reply]))) = Some 0"
  by code_simp

lemma get_run_errors:
  "get_outcome (krb5int_init_creds_get_ext lib0 sys0 icc_ops0 (profile_with None) icc0 False
        (world0 (replicate 20 preauth_required_reply)))
   = Some (KRB5_KDC_UNREACH, 21, 21)"
  by code_simp

lemma get_run_16:
  "get_outcome (krb5int_init_creds_get_ext lib0 sys0 icc_ops0 (profile_with None) icc0 False
        (world0 (replicate 15 preauth_required_reply @ [as_rep_reply])))
   = Some (KRB5_GET_IN_TKT_LOOP, 16, 16)"
  by code_simp

lemma unreach_is_not_loop: "KRB5_KDC_UNREACH \<noteq> KRB5_GET_IN_TKT_LOOP"
  by (simp add: KRB5_KDC_UNREACH_def KRB5_GET_IN_TKT_LOOP_def)

text \<open>
  Claim C1 says that in both drivers the loop count never exceeds 16 and that the 17th
  iteration fails with \<open>KRB5_GET_IN_TKT_LOOP\<close>. The code departs from it in both. Each
  outcome below is the code, the final loop count and the number of requests sent.
  \<^item> The all-in-one driver, against a KDC that asks for pre-authentication every time,
    sends 17 requests and fails in its 18th iteration, with the loop count 18; when the
    17th request is answered with an AS-REP, the run succeeds.
  \<^item> The step interface, driven by \<open>krb5int_init_creds_get_ext\<close> against the same 20
    replies, sends 21 requests, counts 21 loops and ends only when the script is used
    up, with the error of the transport: replies that are errors never reach the test.
    An AS-REP in answer to the 16th request does reach it and is refused.
\<close>

theorem C1_loop_limit_runs:
  "loop_outcome (git_loop lib0 sys0 git_ops0 (profile_with None) False True alice krbtgt_EX 0
      git_locals0 (world0 (replicate 20 preauth_required_reply)))
     = Some (KRB5_GET_IN_TKT_LOOP, 18, 17)
   \<and> map_option (\<lambda>(code, creds, r, w). (code, length (tw_sent w)))
       (krb5_get_in_tkt lib0 sys0 git_ops0 (profile_with None) 0 None None None creds_in
          False (world0 (replicate 20 preauth_required_reply)))
     = Some (KRB5_GET_IN_TKT_LOOP, 17)
   \<and> loop_outcome (git_loop lib0 sys0 git_ops0 (profile_with None) False True alice krbtgt_EX 0
      git_locals0 (world0 (replicate 16 preauth_required_reply @ [as_rep_reply])))
     = Some (0, 17, 17)
   \<and> map_option fst (krb5_get_in_tkt lib0 sys0 git_ops0 (profile_with None) 0 None None None
       creds_in False (world0 (replicate 16 preauth_required_reply @ [as_rep_reply])))
     = Some 0
   \<and> get_outcome (krb5int_init_creds_get_ext lib0 sys0 icc_ops0 (profile_with None) icc0 False
        (world0 (replicate 20 preauth_required_reply)))
     = Some (KRB5_KDC_UNREACH, 21, 21)
   \<and> KRB5_KDC_UNREACH \<noteq> KRB5_GET_IN_TKT_LOOP
   \<and> get_outcome (krb5int_init_creds_get_ext lib0 sys0 icc_ops0 (profile_with None) icc0 False
        (world0 (replicate 15 preauth_required_reply @ [as_rep_reply])))
     = Some (KRB5_GET_IN_TKT_LOOP, 16, 16)"
  using git_run_17 git_full_loop git_run_ok git_full_ok get_run_errors unreach_is_not_loop
    get_run_16
  by (intro conjI)

theorem C1_witness:
  "map_option (\<lambda>(code, loopcount, sent). loopcount)
     (loop_outcome (git_loop lib0 sys0 git_ops0 (profile_with None) False True alice krbtgt_EX 0
        git_locals0 (world0 (replicate 20 preauth_required_reply)))) = Some 18
   \<and> map_option (\<lambda>(code, loopcount, sent). loopcount)
     (get_outcome (krb5int_init_creds_get_ext lib0 sys0 icc_ops0 (profile_with None) icc0 False
        (world0 (replicate 20 preauth_required_reply)))) = Some 21"
  using C1_loop_limit_runs by simp

end
